theory Spec2Isabelle
  imports Main "HOL-Library.Log_Nat"
begin

section \<open>NutriChef Box: shopping needs and nutrition totals\<close>

text \<open>
  The two computations of \<^verbatim>\<open>src/nutrichef-box/app.js\<close> that the specification calls
  \<^verbatim>\<open>computeShoppingNeeds\<close> (the loop of \<^verbatim>\<open>displayShoppingList\<close>, lines 454 to 464) and
  \<^verbatim>\<open>computeTotals\<close> (the loop of \<^verbatim>\<open>updateNutritionGraph\<close>, lines 503 to 514), embedded
  as functions of the snapshots they read. The source is JavaScript: a missing property is
  \<^verbatim>\<open>undefined\<close>, a plain object inherits the properties of \<^verbatim>\<open>Object.prototype\<close>, a number
  is an IEEE-754 double, and a method call on \<^verbatim>\<open>undefined\<close> throws. Each of these is written
  out below.
\<close>

subsection \<open>Strings\<close>

text \<open>
  A string is the list of its Unicode code points (a surrogate pair is the one code point
  that it encodes). \<open>ascii\<close> reads a string of ASCII characters.
\<close>

type_synonym jsstring = "nat list"

definition ascii :: "string \<Rightarrow> jsstring" where
  "ascii s = map of_char s"

text \<open>
  \<^verbatim>\<open>String.prototype.toLowerCase\<close> is the locale-independent case conversion of the Unicode
  standard. A code point that has a lower-case mapping of one code point is replaced by
  it. These mappings are the table below, from the character database of Unicode 14.0:
  an entry \<open>(lo, hi, step, target)\<close> maps \<open>lo\<close>, \<open>lo + step\<close>, ... up to \<open>hi\<close> to \<open>target\<close>,
  \<open>target + step\<close>, ...; the entries are in increasing order and do not overlap. The first
  entry is A to Z, the next two are the capital letters of Latin-1.
\<close>

definition lower_table :: "(nat \<times> nat \<times> nat \<times> nat) list" where
  "lower_table =
    [(0x0041, 0x005A, 1, 0x0061), (0x00C0, 0x00D6, 1, 0x00E0), (0x00D8, 0x00DE, 1, 0x00F8),
     (0x0100, 0x012E, 2, 0x0101), (0x0132, 0x0136, 2, 0x0133), (0x0139, 0x0147, 2, 0x013A),
     (0x014A, 0x0176, 2, 0x014B), (0x0178, 0x0178, 1, 0x00FF), (0x0179, 0x017D, 2, 0x017A),
     (0x0181, 0x0181, 1, 0x0253), (0x0182, 0x0184, 2, 0x0183), (0x0186, 0x0186, 1, 0x0254),
     (0x0187, 0x0187, 1, 0x0188), (0x0189, 0x018A, 1, 0x0256), (0x018B, 0x018B, 1, 0x018C),
     (0x018E, 0x018E, 1, 0x01DD), (0x018F, 0x018F, 1, 0x0259), (0x0190, 0x0190, 1, 0x025B),
     (0x0191, 0x0191, 1, 0x0192), (0x0193, 0x0193, 1, 0x0260), (0x0194, 0x0194, 1, 0x0263),
     (0x0196, 0x0196, 1, 0x0269), (0x0197, 0x0197, 1, 0x0268), (0x0198, 0x0198, 1, 0x0199),
     (0x019C, 0x019C, 1, 0x026F), (0x019D, 0x019D, 1, 0x0272), (0x019F, 0x019F, 1, 0x0275),
     (0x01A0, 0x01A4, 2, 0x01A1), (0x01A6, 0x01A6, 1, 0x0280), (0x01A7, 0x01A7, 1, 0x01A8),
     (0x01A9, 0x01A9, 1, 0x0283), (0x01AC, 0x01AC, 1, 0x01AD), (0x01AE, 0x01AE, 1, 0x0288),
     (0x01AF, 0x01AF, 1, 0x01B0), (0x01B1, 0x01B2, 1, 0x028A), (0x01B3, 0x01B5, 2, 0x01B4),
     (0x01B7, 0x01B7, 1, 0x0292), (0x01B8, 0x01B8, 1, 0x01B9), (0x01BC, 0x01BC, 1, 0x01BD),
     (0x01C4, 0x01C4, 1, 0x01C6), (0x01C5, 0x01C5, 1, 0x01C6), (0x01C7, 0x01C7, 1, 0x01C9),
     (0x01C8, 0x01C8, 1, 0x01C9), (0x01CA, 0x01CA, 1, 0x01CC), (0x01CB, 0x01DB, 2, 0x01CC),
     (0x01DE, 0x01EE, 2, 0x01DF), (0x01F1, 0x01F1, 1, 0x01F3), (0x01F2, 0x01F4, 2, 0x01F3),
     (0x01F6, 0x01F6, 1, 0x0195), (0x01F7, 0x01F7, 1, 0x01BF), (0x01F8, 0x021E, 2, 0x01F9),
     (0x0220, 0x0220, 1, 0x019E), (0x0222, 0x0232, 2, 0x0223), (0x023A, 0x023A, 1, 0x2C65),
     (0x023B, 0x023B, 1, 0x023C), (0x023D, 0x023D, 1, 0x019A), (0x023E, 0x023E, 1, 0x2C66),
     (0x0241, 0x0241, 1, 0x0242), (0x0243, 0x0243, 1, 0x0180), (0x0244, 0x0244, 1, 0x0289),
     (0x0245, 0x0245, 1, 0x028C), (0x0246, 0x024E, 2, 0x0247), (0x0370, 0x0372, 2, 0x0371),
     (0x0376, 0x0376, 1, 0x0377), (0x037F, 0x037F, 1, 0x03F3), (0x0386, 0x0386, 1, 0x03AC),
     (0x0388, 0x038A, 1, 0x03AD), (0x038C, 0x038C, 1, 0x03CC), (0x038E, 0x038F, 1, 0x03CD),
     (0x0391, 0x03A1, 1, 0x03B1), (0x03A3, 0x03AB, 1, 0x03C3), (0x03CF, 0x03CF, 1, 0x03D7),
     (0x03D8, 0x03EE, 2, 0x03D9), (0x03F4, 0x03F4, 1, 0x03B8), (0x03F7, 0x03F7, 1, 0x03F8),
     (0x03F9, 0x03F9, 1, 0x03F2), (0x03FA, 0x03FA, 1, 0x03FB), (0x03FD, 0x03FF, 1, 0x037B),
     (0x0400, 0x040F, 1, 0x0450), (0x0410, 0x042F, 1, 0x0430), (0x0460, 0x0480, 2, 0x0461),
     (0x048A, 0x04BE, 2, 0x048B), (0x04C0, 0x04C0, 1, 0x04CF), (0x04C1, 0x04CD, 2, 0x04C2),
     (0x04D0, 0x052E, 2, 0x04D1), (0x0531, 0x0556, 1, 0x0561), (0x10A0, 0x10C5, 1, 0x2D00),
     (0x10C7, 0x10C7, 1, 0x2D27), (0x10CD, 0x10CD, 1, 0x2D2D), (0x13A0, 0x13EF, 1, 0xAB70),
     (0x13F0, 0x13F5, 1, 0x13F8), (0x1C90, 0x1CBA, 1, 0x10D0), (0x1CBD, 0x1CBF, 1, 0x10FD),
     (0x1E00, 0x1E94, 2, 0x1E01), (0x1E9E, 0x1E9E, 1, 0x00DF), (0x1EA0, 0x1EFE, 2, 0x1EA1),
     (0x1F08, 0x1F0F, 1, 0x1F00), (0x1F18, 0x1F1D, 1, 0x1F10), (0x1F28, 0x1F2F, 1, 0x1F20),
     (0x1F38, 0x1F3F, 1, 0x1F30), (0x1F48, 0x1F4D, 1, 0x1F40), (0x1F59, 0x1F5F, 2, 0x1F51),
     (0x1F68, 0x1F6F, 1, 0x1F60), (0x1F88, 0x1F8F, 1, 0x1F80), (0x1F98, 0x1F9F, 1, 0x1F90),
     (0x1FA8, 0x1FAF, 1, 0x1FA0), (0x1FB8, 0x1FB9, 1, 0x1FB0), (0x1FBA, 0x1FBB, 1, 0x1F70),
     (0x1FBC, 0x1FBC, 1, 0x1FB3), (0x1FC8, 0x1FCB, 1, 0x1F72), (0x1FCC, 0x1FCC, 1, 0x1FC3),
     (0x1FD8, 0x1FD9, 1, 0x1FD0), (0x1FDA, 0x1FDB, 1, 0x1F76), (0x1FE8, 0x1FE9, 1, 0x1FE0),
     (0x1FEA, 0x1FEB, 1, 0x1F7A), (0x1FEC, 0x1FEC, 1, 0x1FE5), (0x1FF8, 0x1FF9, 1, 0x1F78),
     (0x1FFA, 0x1FFB, 1, 0x1F7C), (0x1FFC, 0x1FFC, 1, 0x1FF3), (0x2126, 0x2126, 1, 0x03C9),
     (0x212A, 0x212A, 1, 0x006B), (0x212B, 0x212B, 1, 0x00E5), (0x2132, 0x2132, 1, 0x214E),
     (0x2160, 0x216F, 1, 0x2170), (0x2183, 0x2183, 1, 0x2184), (0x24B6, 0x24CF, 1, 0x24D0),
     (0x2C00, 0x2C2F, 1, 0x2C30), (0x2C60, 0x2C60, 1, 0x2C61), (0x2C62, 0x2C62, 1, 0x026B),
     (0x2C63, 0x2C63, 1, 0x1D7D), (0x2C64, 0x2C64, 1, 0x027D), (0x2C67, 0x2C6B, 2, 0x2C68),
     (0x2C6D, 0x2C6D, 1, 0x0251), (0x2C6E, 0x2C6E, 1, 0x0271), (0x2C6F, 0x2C6F, 1, 0x0250),
     (0x2C70, 0x2C70, 1, 0x0252), (0x2C72, 0x2C72, 1, 0x2C73), (0x2C75, 0x2C75, 1, 0x2C76),
     (0x2C7E, 0x2C7F, 1, 0x023F), (0x2C80, 0x2CE2, 2, 0x2C81), (0x2CEB, 0x2CED, 2, 0x2CEC),
     (0x2CF2, 0x2CF2, 1, 0x2CF3), (0xA640, 0xA66C, 2, 0xA641), (0xA680, 0xA69A, 2, 0xA681),
     (0xA722, 0xA72E, 2, 0xA723), (0xA732, 0xA76E, 2, 0xA733), (0xA779, 0xA77B, 2, 0xA77A),
     (0xA77D, 0xA77D, 1, 0x1D79), (0xA77E, 0xA786, 2, 0xA77F), (0xA78B, 0xA78B, 1, 0xA78C),
     (0xA78D, 0xA78D, 1, 0x0265), (0xA790, 0xA792, 2, 0xA791), (0xA796, 0xA7A8, 2, 0xA797),
     (0xA7AA, 0xA7AA, 1, 0x0266), (0xA7AB, 0xA7AB, 1, 0x025C), (0xA7AC, 0xA7AC, 1, 0x0261),
     (0xA7AD, 0xA7AD, 1, 0x026C), (0xA7AE, 0xA7AE, 1, 0x026A), (0xA7B0, 0xA7B0, 1, 0x029E),
     (0xA7B1, 0xA7B1, 1, 0x0287), (0xA7B2, 0xA7B2, 1, 0x029D), (0xA7B3, 0xA7B3, 1, 0xAB53),
     (0xA7B4, 0xA7C2, 2, 0xA7B5), (0xA7C4, 0xA7C4, 1, 0xA794), (0xA7C5, 0xA7C5, 1, 0x0282),
     (0xA7C6, 0xA7C6, 1, 0x1D8E), (0xA7C7, 0xA7C9, 2, 0xA7C8), (0xA7D0, 0xA7D0, 1, 0xA7D1),
     (0xA7D6, 0xA7D8, 2, 0xA7D7), (0xA7F5, 0xA7F5, 1, 0xA7F6), (0xFF21, 0xFF3A, 1, 0xFF41),
     (0x10400, 0x10427, 1, 0x10428), (0x104B0, 0x104D3, 1, 0x104D8),
     (0x10570, 0x1057A, 1, 0x10597), (0x1057C, 0x1058A, 1, 0x105A3),
     (0x1058C, 0x10592, 1, 0x105B3), (0x10594, 0x10595, 1, 0x105BB),
     (0x10C80, 0x10CB2, 1, 0x10CC0), (0x118A0, 0x118BF, 1, 0x118C0),
     (0x16E40, 0x16E5F, 1, 0x16E60), (0x1E900, 0x1E921, 1, 0x1E922)]"

fun lookup_lower :: "nat \<Rightarrow> (nat \<times> nat \<times> nat \<times> nat) list \<Rightarrow> nat" where
  "lookup_lower c [] = c"
| "lookup_lower c ((lo, hi, step, target) # rs) =
     (if c < lo then c
      else if c \<le> hi \<and> (c - lo) mod step = 0 then target + (c - lo)
      else lookup_lower c rs)"

definition simple_lower :: "nat \<Rightarrow> nat" where
  "simple_lower c = lookup_lower c lower_table"

text \<open>
  Two code points are converted by a rule of their own. U+0130 (capital I with dot above)
  becomes the two code points U+0069 U+0307. U+03A3 (capital sigma) becomes the final
  sigma U+03C2 when it ends a word, and U+03C3 otherwise: it ends a word when a cased
  letter precedes it and none follows it, case-ignorable characters (apostrophe, full
  stop, combining marks, ...) being skipped on both sides. The two tables are the cased
  and the case-ignorable code points of Unicode 14.0, as intervals \<open>(lo, hi)\<close> in increasing
  order; the cased code points that are also case-ignorable are listed as case-ignorable
  only, since the rule asks whether a code point is cased only when it is not
  case-ignorable.
\<close>

definition cased_table :: "(nat \<times> nat) list" where
  "cased_table =
    [(0x0041, 0x005A), (0x0061, 0x007A), (0x00AA, 0x00AA), (0x00B5, 0x00B5), (0x00BA, 0x00BA),
     (0x00C0, 0x00D6), (0x00D8, 0x00F6), (0x00F8, 0x01BA), (0x01BC, 0x01BF), (0x01C4, 0x0293),
     (0x0295, 0x02AF), (0x0370, 0x0373), (0x0376, 0x0377), (0x037B, 0x037D), (0x037F, 0x037F),
     (0x0386, 0x0386), (0x0388, 0x038A), (0x038C, 0x038C), (0x038E, 0x03A1), (0x03A3, 0x03F5),
     (0x03F7, 0x0481), (0x048A, 0x052F), (0x0531, 0x0556), (0x0560, 0x0588), (0x10A0, 0x10C5),
     (0x10C7, 0x10C7), (0x10CD, 0x10CD), (0x10D0, 0x10FA), (0x10FD, 0x10FF), (0x13A0, 0x13F5),
     (0x13F8, 0x13FD), (0x1C80, 0x1C88), (0x1C90, 0x1CBA), (0x1CBD, 0x1CBF), (0x1D00, 0x1D2B),
     (0x1D6B, 0x1D77), (0x1D79, 0x1D9A), (0x1E00, 0x1F15), (0x1F18, 0x1F1D), (0x1F20, 0x1F45),
     (0x1F48, 0x1F4D), (0x1F50, 0x1F57), (0x1F59, 0x1F59), (0x1F5B, 0x1F5B), (0x1F5D, 0x1F5D),
     (0x1F5F, 0x1F7D), (0x1F80, 0x1FB4), (0x1FB6, 0x1FBC), (0x1FBE, 0x1FBE), (0x1FC2, 0x1FC4),
     (0x1FC6, 0x1FCC), (0x1FD0, 0x1FD3), (0x1FD6, 0x1FDB), (0x1FE0, 0x1FEC), (0x1FF2, 0x1FF4),
     (0x1FF6, 0x1FFC), (0x2102, 0x2102), (0x2107, 0x2107), (0x210A, 0x2113), (0x2115, 0x2115),
     (0x2119, 0x211D), (0x2124, 0x2124), (0x2126, 0x2126), (0x2128, 0x2128), (0x212A, 0x212D),
     (0x212F, 0x2134), (0x2139, 0x2139), (0x213C, 0x213F), (0x2145, 0x2149), (0x214E, 0x214E),
     (0x2160, 0x217F), (0x2183, 0x2184), (0x24B6, 0x24E9), (0x2C00, 0x2C7B), (0x2C7E, 0x2CE4),
     (0x2CEB, 0x2CEE), (0x2CF2, 0x2CF3), (0x2D00, 0x2D25), (0x2D27, 0x2D27), (0x2D2D, 0x2D2D),
     (0xA640, 0xA66D), (0xA680, 0xA69B), (0xA722, 0xA76F), (0xA771, 0xA787), (0xA78B, 0xA78E),
     (0xA790, 0xA7CA), (0xA7D0, 0xA7D1), (0xA7D3, 0xA7D3), (0xA7D5, 0xA7D9), (0xA7F5, 0xA7F6),
     (0xA7FA, 0xA7FA), (0xAB30, 0xAB5A), (0xAB60, 0xAB68), (0xAB70, 0xABBF), (0xFB00, 0xFB06),
     (0xFB13, 0xFB17), (0xFF21, 0xFF3A), (0xFF41, 0xFF5A), (0x10400, 0x1044F), (0x104B0, 0x104D3),
     (0x104D8, 0x104FB), (0x10570, 0x1057A), (0x1057C, 0x1058A), (0x1058C, 0x10592),
     (0x10594, 0x10595), (0x10597, 0x105A1), (0x105A3, 0x105B1), (0x105B3, 0x105B9),
     (0x105BB, 0x105BC), (0x10C80, 0x10CB2), (0x10CC0, 0x10CF2), (0x118A0, 0x118DF),
     (0x16E40, 0x16E7F), (0x1D400, 0x1D454), (0x1D456, 0x1D49C), (0x1D49E, 0x1D49F),
     (0x1D4A2, 0x1D4A2), (0x1D4A5, 0x1D4A6), (0x1D4A9, 0x1D4AC), (0x1D4AE, 0x1D4B9),
     (0x1D4BB, 0x1D4BB), (0x1D4BD, 0x1D4C3), (0x1D4C5, 0x1D505), (0x1D507, 0x1D50A),
     (0x1D50D, 0x1D514), (0x1D516, 0x1D51C), (0x1D51E, 0x1D539), (0x1D53B, 0x1D53E),
     (0x1D540, 0x1D544), (0x1D546, 0x1D546), (0x1D54A, 0x1D550), (0x1D552, 0x1D6A5),
     (0x1D6A8, 0x1D6C0), (0x1D6C2, 0x1D6DA), (0x1D6DC, 0x1D6FA), (0x1D6FC, 0x1D714),
     (0x1D716, 0x1D734), (0x1D736, 0x1D74E), (0x1D750, 0x1D76E), (0x1D770, 0x1D788),
     (0x1D78A, 0x1D7A8), (0x1D7AA, 0x1D7C2), (0x1D7C4, 0x1D7CB), (0x1DF00, 0x1DF09),
     (0x1DF0B, 0x1DF1E), (0x1E900, 0x1E943), (0x1F130, 0x1F149), (0x1F150, 0x1F169),
     (0x1F170, 0x1F189)]"

definition case_ignorable_table :: "(nat \<times> nat) list" where
  "case_ignorable_table =
    [(0x0027, 0x0027), (0x002E, 0x002E), (0x003A, 0x003A), (0x005E, 0x005E), (0x0060, 0x0060),
     (0x00A8, 0x00A8), (0x00AD, 0x00AD), (0x00AF, 0x00AF), (0x00B4, 0x00B4), (0x00B7, 0x00B8),
     (0x02B0, 0x036F), (0x0374, 0x0375), (0x037A, 0x037A), (0x0384, 0x0385), (0x0387, 0x0387),
     (0x0483, 0x0489), (0x0559, 0x0559), (0x055F, 0x055F), (0x0591, 0x05BD), (0x05BF, 0x05BF),
     (0x05C1, 0x05C2), (0x05C4, 0x05C5), (0x05C7, 0x05C7), (0x05F4, 0x05F4), (0x0600, 0x0605),
     (0x0610, 0x061A), (0x061C, 0x061C), (0x0640, 0x0640), (0x064B, 0x065F), (0x0670, 0x0670),
     (0x06D6, 0x06DD), (0x06DF, 0x06E8), (0x06EA, 0x06ED), (0x070F, 0x070F), (0x0711, 0x0711),
     (0x0730, 0x074A), (0x07A6, 0x07B0), (0x07EB, 0x07F5), (0x07FA, 0x07FA), (0x07FD, 0x07FD),
     (0x0816, 0x082D), (0x0859, 0x085B), (0x0888, 0x0888), (0x0890, 0x0891), (0x0898, 0x089F),
     (0x08C9, 0x0902), (0x093A, 0x093A), (0x093C, 0x093C), (0x0941, 0x0948), (0x094D, 0x094D),
     (0x0951, 0x0957), (0x0962, 0x0963), (0x0971, 0x0971), (0x0981, 0x0981), (0x09BC, 0x09BC),
     (0x09C1, 0x09C4), (0x09CD, 0x09CD), (0x09E2, 0x09E3), (0x09FE, 0x09FE), (0x0A01, 0x0A02),
     (0x0A3C, 0x0A3C), (0x0A41, 0x0A42), (0x0A47, 0x0A48), (0x0A4B, 0x0A4D), (0x0A51, 0x0A51),
     (0x0A70, 0x0A71), (0x0A75, 0x0A75), (0x0A81, 0x0A82), (0x0ABC, 0x0ABC), (0x0AC1, 0x0AC5),
     (0x0AC7, 0x0AC8), (0x0ACD, 0x0ACD), (0x0AE2, 0x0AE3), (0x0AFA, 0x0AFF), (0x0B01, 0x0B01),
     (0x0B3C, 0x0B3C), (0x0B3F, 0x0B3F), (0x0B41, 0x0B44), (0x0B4D, 0x0B4D), (0x0B55, 0x0B56),
     (0x0B62, 0x0B63), (0x0B82, 0x0B82), (0x0BC0, 0x0BC0), (0x0BCD, 0x0BCD), (0x0C00, 0x0C00),
     (0x0C04, 0x0C04), (0x0C3C, 0x0C3C), (0x0C3E, 0x0C40), (0x0C46, 0x0C48), (0x0C4A, 0x0C4D),
     (0x0C55, 0x0C56), (0x0C62, 0x0C63), (0x0C81, 0x0C81), (0x0CBC, 0x0CBC), (0x0CBF, 0x0CBF),
     (0x0CC6, 0x0CC6), (0x0CCC, 0x0CCD), (0x0CE2, 0x0CE3), (0x0D00, 0x0D01), (0x0D3B, 0x0D3C),
     (0x0D41, 0x0D44), (0x0D4D, 0x0D4D), (0x0D62, 0x0D63), (0x0D81, 0x0D81), (0x0DCA, 0x0DCA),
     (0x0DD2, 0x0DD4), (0x0DD6, 0x0DD6), (0x0E31, 0x0E31), (0x0E34, 0x0E3A), (0x0E46, 0x0E4E),
     (0x0EB1, 0x0EB1), (0x0EB4, 0x0EBC), (0x0EC6, 0x0EC6), (0x0EC8, 0x0ECD), (0x0F18, 0x0F19),
     (0x0F35, 0x0F35), (0x0F37, 0x0F37), (0x0F39, 0x0F39), (0x0F71, 0x0F7E), (0x0F80, 0x0F84),
     (0x0F86, 0x0F87), (0x0F8D, 0x0F97), (0x0F99, 0x0FBC), (0x0FC6, 0x0FC6), (0x102D, 0x1030),
     (0x1032, 0x1037), (0x1039, 0x103A), (0x103D, 0x103E), (0x1058, 0x1059), (0x105E, 0x1060),
     (0x1071, 0x1074), (0x1082, 0x1082), (0x1085, 0x1086), (0x108D, 0x108D), (0x109D, 0x109D),
     (0x10FC, 0x10FC), (0x135D, 0x135F), (0x1712, 0x1714), (0x1732, 0x1733), (0x1752, 0x1753),
     (0x1772, 0x1773), (0x17B4, 0x17B5), (0x17B7, 0x17BD), (0x17C6, 0x17C6), (0x17C9, 0x17D3),
     (0x17D7, 0x17D7), (0x17DD, 0x17DD), (0x180B, 0x180F), (0x1843, 0x1843), (0x1885, 0x1886),
     (0x18A9, 0x18A9), (0x1920, 0x1922), (0x1927, 0x1928), (0x1932, 0x1932), (0x1939, 0x193B),
     (0x1A17, 0x1A18), (0x1A1B, 0x1A1B), (0x1A56, 0x1A56), (0x1A58, 0x1A5E), (0x1A60, 0x1A60),
     (0x1A62, 0x1A62), (0x1A65, 0x1A6C), (0x1A73, 0x1A7C), (0x1A7F, 0x1A7F), (0x1AA7, 0x1AA7),
     (0x1AB0, 0x1ACE), (0x1B00, 0x1B03), (0x1B34, 0x1B34), (0x1B36, 0x1B3A), (0x1B3C, 0x1B3C),
     (0x1B42, 0x1B42), (0x1B6B, 0x1B73), (0x1B80, 0x1B81), (0x1BA2, 0x1BA5), (0x1BA8, 0x1BA9),
     (0x1BAB, 0x1BAD), (0x1BE6, 0x1BE6), (0x1BE8, 0x1BE9), (0x1BED, 0x1BED), (0x1BEF, 0x1BF1),
     (0x1C2C, 0x1C33), (0x1C36, 0x1C37), (0x1C78, 0x1C7D), (0x1CD0, 0x1CD2), (0x1CD4, 0x1CE0),
     (0x1CE2, 0x1CE8), (0x1CED, 0x1CED), (0x1CF4, 0x1CF4), (0x1CF8, 0x1CF9), (0x1D2C, 0x1D6A),
     (0x1D78, 0x1D78), (0x1D9B, 0x1DFF), (0x1FBD, 0x1FBD), (0x1FBF, 0x1FC1), (0x1FCD, 0x1FCF),
     (0x1FDD, 0x1FDF), (0x1FED, 0x1FEF), (0x1FFD, 0x1FFE), (0x200B, 0x200F), (0x2018, 0x2019),
     (0x2024, 0x2024), (0x2027, 0x2027), (0x202A, 0x202E), (0x2060, 0x2064), (0x2066, 0x206F),
     (0x2071, 0x2071), (0x207F, 0x207F), (0x2090, 0x209C), (0x20D0, 0x20F0), (0x2C7C, 0x2C7D),
     (0x2CEF, 0x2CF1), (0x2D6F, 0x2D6F), (0x2D7F, 0x2D7F), (0x2DE0, 0x2DFF), (0x2E2F, 0x2E2F),
     (0x3005, 0x3005), (0x302A, 0x302D), (0x3031, 0x3035), (0x303B, 0x303B), (0x3099, 0x309E),
     (0x30FC, 0x30FE), (0xA015, 0xA015), (0xA4F8, 0xA4FD), (0xA60C, 0xA60C), (0xA66F, 0xA672),
     (0xA674, 0xA67D), (0xA67F, 0xA67F), (0xA69C, 0xA69F), (0xA6F0, 0xA6F1), (0xA700, 0xA721),
     (0xA770, 0xA770), (0xA788, 0xA78A), (0xA7F2, 0xA7F4), (0xA7F8, 0xA7F9), (0xA802, 0xA802),
     (0xA806, 0xA806), (0xA80B, 0xA80B), (0xA825, 0xA826), (0xA82C, 0xA82C), (0xA8C4, 0xA8C5),
     (0xA8E0, 0xA8F1), (0xA8FF, 0xA8FF), (0xA926, 0xA92D), (0xA947, 0xA951), (0xA980, 0xA982),
     (0xA9B3, 0xA9B3), (0xA9B6, 0xA9B9), (0xA9BC, 0xA9BD), (0xA9CF, 0xA9CF), (0xA9E5, 0xA9E6),
     (0xAA29, 0xAA2E), (0xAA31, 0xAA32), (0xAA35, 0xAA36), (0xAA43, 0xAA43), (0xAA4C, 0xAA4C),
     (0xAA70, 0xAA70), (0xAA7C, 0xAA7C), (0xAAB0, 0xAAB0), (0xAAB2, 0xAAB4), (0xAAB7, 0xAAB8),
     (0xAABE, 0xAABF), (0xAAC1, 0xAAC1), (0xAADD, 0xAADD), (0xAAEC, 0xAAED), (0xAAF3, 0xAAF4),
     (0xAAF6, 0xAAF6), (0xAB5B, 0xAB5F), (0xAB69, 0xAB6B), (0xABE5, 0xABE5), (0xABE8, 0xABE8),
     (0xABED, 0xABED), (0xFB1E, 0xFB1E), (0xFBB2, 0xFBC2), (0xFE00, 0xFE0F), (0xFE13, 0xFE13),
     (0xFE20, 0xFE2F), (0xFE52, 0xFE52), (0xFE55, 0xFE55), (0xFEFF, 0xFEFF), (0xFF07, 0xFF07),
     (0xFF0E, 0xFF0E), (0xFF1A, 0xFF1A), (0xFF3E, 0xFF3E), (0xFF40, 0xFF40), (0xFF70, 0xFF70),
     (0xFF9E, 0xFF9F), (0xFFE3, 0xFFE3), (0xFFF9, 0xFFFB), (0x101FD, 0x101FD), (0x102E0, 0x102E0),
     (0x10376, 0x1037A), (0x10780, 0x10785), (0x10787, 0x107B0), (0x107B2, 0x107BA),
     (0x10A01, 0x10A03), (0x10A05, 0x10A06), (0x10A0C, 0x10A0F), (0x10A38, 0x10A3A),
     (0x10A3F, 0x10A3F), (0x10AE5, 0x10AE6), (0x10D24, 0x10D27), (0x10EAB, 0x10EAC),
     (0x10F46, 0x10F50), (0x10F82, 0x10F85), (0x11001, 0x11001), (0x11038, 0x11046),
     (0x11070, 0x11070), (0x11073, 0x11074), (0x1107F, 0x11081), (0x110B3, 0x110B6),
     (0x110B9, 0x110BA), (0x110BD, 0x110BD), (0x110C2, 0x110C2), (0x110CD, 0x110CD),
     (0x11100, 0x11102), (0x11127, 0x1112B), (0x1112D, 0x11134), (0x11173, 0x11173),
     (0x11180, 0x11181), (0x111B6, 0x111BE), (0x111C9, 0x111CC), (0x111CF, 0x111CF),
     (0x1122F, 0x11231), (0x11234, 0x11234), (0x11236, 0x11237), (0x1123E, 0x1123E),
     (0x112DF, 0x112DF), (0x112E3, 0x112EA), (0x11300, 0x11301), (0x1133B, 0x1133C),
     (0x11340, 0x11340), (0x11366, 0x1136C), (0x11370, 0x11374), (0x11438, 0x1143F),
     (0x11442, 0x11444), (0x11446, 0x11446), (0x1145E, 0x1145E), (0x114B3, 0x114B8),
     (0x114BA, 0x114BA), (0x114BF, 0x114C0), (0x114C2, 0x114C3), (0x115B2, 0x115B5),
     (0x115BC, 0x115BD), (0x115BF, 0x115C0), (0x115DC, 0x115DD), (0x11633, 0x1163A),
     (0x1163D, 0x1163D), (0x1163F, 0x11640), (0x116AB, 0x116AB), (0x116AD, 0x116AD),
     (0x116B0, 0x116B5), (0x116B7, 0x116B7), (0x1171D, 0x1171F), (0x11722, 0x11725),
     (0x11727, 0x1172B), (0x1182F, 0x11837), (0x11839, 0x1183A), (0x1193B, 0x1193C),
     (0x1193E, 0x1193E), (0x11943, 0x11943), (0x119D4, 0x119D7), (0x119DA, 0x119DB),
     (0x119E0, 0x119E0), (0x11A01, 0x11A0A), (0x11A33, 0x11A38), (0x11A3B, 0x11A3E),
     (0x11A47, 0x11A47), (0x11A51, 0x11A56), (0x11A59, 0x11A5B), (0x11A8A, 0x11A96),
     (0x11A98, 0x11A99), (0x11C30, 0x11C36), (0x11C38, 0x11C3D), (0x11C3F, 0x11C3F),
     (0x11C92, 0x11CA7), (0x11CAA, 0x11CB0), (0x11CB2, 0x11CB3), (0x11CB5, 0x11CB6),
     (0x11D31, 0x11D36), (0x11D3A, 0x11D3A), (0x11D3C, 0x11D3D), (0x11D3F, 0x11D45),
     (0x11D47, 0x11D47), (0x11D90, 0x11D91), (0x11D95, 0x11D95), (0x11D97, 0x11D97),
     (0x11EF3, 0x11EF4), (0x13430, 0x13438), (0x16AF0, 0x16AF4), (0x16B30, 0x16B36),
     (0x16B40, 0x16B43), (0x16F4F, 0x16F4F), (0x16F8F, 0x16F9F), (0x16FE0, 0x16FE1),
     (0x16FE3, 0x16FE4), (0x1AFF0, 0x1AFF3), (0x1AFF5, 0x1AFFB), (0x1AFFD, 0x1AFFE),
     (0x1BC9D, 0x1BC9E), (0x1BCA0, 0x1BCA3), (0x1CF00, 0x1CF2D), (0x1CF30, 0x1CF46),
     (0x1D167, 0x1D169), (0x1D173, 0x1D182), (0x1D185, 0x1D18B), (0x1D1AA, 0x1D1AD),
     (0x1D242, 0x1D244), (0x1DA00, 0x1DA36), (0x1DA3B, 0x1DA6C), (0x1DA75, 0x1DA75),
     (0x1DA84, 0x1DA84), (0x1DA9B, 0x1DA9F), (0x1DAA1, 0x1DAAF), (0x1E000, 0x1E006),
     (0x1E008, 0x1E018), (0x1E01B, 0x1E021), (0x1E023, 0x1E024), (0x1E026, 0x1E02A),
     (0x1E130, 0x1E13D), (0x1E2AE, 0x1E2AE), (0x1E2EC, 0x1E2EF), (0x1E8D0, 0x1E8D6),
     (0x1E944, 0x1E94B), (0x1F3FB, 0x1F3FF), (0xE0001, 0xE0001), (0xE0020, 0xE007F),
     (0xE0100, 0xE01EF)]"

fun in_ranges :: "nat \<Rightarrow> (nat \<times> nat) list \<Rightarrow> bool" where
  "in_ranges c [] = False"
| "in_ranges c ((lo, hi) # rs) =
     (if c < lo then False else if c \<le> hi then True else in_ranges c rs)"

definition cased :: "nat \<Rightarrow> bool" where
  "cased c = in_ranges c cased_table"

definition case_ignorable :: "nat \<Rightarrow> bool" where
  "case_ignorable c = in_ranges c case_ignorable_table"

text \<open>\<open>before\<close> holds the code points that precede the sigma, the nearest first.\<close>

definition final_sigma :: "nat list \<Rightarrow> nat list \<Rightarrow> bool" where
  "final_sigma before after \<longleftrightarrow>
     (case dropWhile case_ignorable before of [] \<Rightarrow> False | c # _ \<Rightarrow> cased c)
     \<and> (case dropWhile case_ignorable after of [] \<Rightarrow> True | c # _ \<Rightarrow> \<not> cased c)"

fun lower_from :: "nat list \<Rightarrow> nat list \<Rightarrow> nat list" where
  "lower_from before [] = []"
| "lower_from before (c # after) =
     (if c = 0x03A3 then [if final_sigma before after then 0x03C2 else 0x03C3]
      else if c = 0x0130 then [0x0069, 0x0307]
      else [simple_lower c]) @ lower_from (c # before) after"

definition toLowerCase :: "jsstring \<Rightarrow> jsstring" where
  "toLowerCase s = lower_from [] s"

text \<open>
  The upper-case letters are the code points of the general category Lu of Unicode 14.0,
  as entries \<open>(lo, hi, step)\<close>. Not every one of them has a lower-case mapping: U+03D2 (the
  Greek upsilon with hook symbol) is an upper-case letter that \<^verbatim>\<open>toLowerCase\<close> leaves as
  it is.
\<close>

definition upper_table :: "(nat \<times> nat \<times> nat) list" where
  "upper_table =
    [(0x0041, 0x005A, 1), (0x00C0, 0x00D6, 1), (0x00D8, 0x00DE, 1), (0x0100, 0x0136, 2),
     (0x0139, 0x0147, 2), (0x014A, 0x0178, 2), (0x0179, 0x017D, 2), (0x0181, 0x0182, 1),
     (0x0184, 0x0186, 2), (0x0187, 0x0189, 2), (0x018A, 0x018B, 1), (0x018E, 0x0191, 1),
     (0x0193, 0x0194, 1), (0x0196, 0x0198, 1), (0x019C, 0x019D, 1), (0x019F, 0x01A0, 1),
     (0x01A2, 0x01A6, 2), (0x01A7, 0x01A9, 2), (0x01AC, 0x01AE, 2), (0x01AF, 0x01B1, 2),
     (0x01B2, 0x01B3, 1), (0x01B5, 0x01B7, 2), (0x01B8, 0x01B8, 1), (0x01BC, 0x01BC, 1),
     (0x01C4, 0x01C4, 1), (0x01C7, 0x01C7, 1), (0x01CA, 0x01CA, 1), (0x01CD, 0x01DB, 2),
     (0x01DE, 0x01EE, 2), (0x01F1, 0x01F1, 1), (0x01F4, 0x01F6, 2), (0x01F7, 0x01F8, 1),
     (0x01FA, 0x0232, 2), (0x023A, 0x023B, 1), (0x023D, 0x023E, 1), (0x0241, 0x0243, 2),
     (0x0244, 0x0246, 1), (0x0248, 0x024E, 2), (0x0370, 0x0372, 2), (0x0376, 0x0376, 1),
     (0x037F, 0x037F, 1), (0x0386, 0x0388, 2), (0x0389, 0x038A, 1), (0x038C, 0x038E, 2),
     (0x038F, 0x0391, 2), (0x0392, 0x03A1, 1), (0x03A3, 0x03AB, 1), (0x03CF, 0x03CF, 1),
     (0x03D2, 0x03D4, 1), (0x03D8, 0x03EE, 2), (0x03F4, 0x03F4, 1), (0x03F7, 0x03F9, 2),
     (0x03FA, 0x03FA, 1), (0x03FD, 0x042F, 1), (0x0460, 0x0480, 2), (0x048A, 0x04C0, 2),
     (0x04C1, 0x04CD, 2), (0x04D0, 0x052E, 2), (0x0531, 0x0556, 1), (0x10A0, 0x10C5, 1),
     (0x10C7, 0x10C7, 1), (0x10CD, 0x10CD, 1), (0x13A0, 0x13F5, 1), (0x1C90, 0x1CBA, 1),
     (0x1CBD, 0x1CBF, 1), (0x1E00, 0x1E94, 2), (0x1E9E, 0x1EFE, 2), (0x1F08, 0x1F0F, 1),
     (0x1F18, 0x1F1D, 1), (0x1F28, 0x1F2F, 1), (0x1F38, 0x1F3F, 1), (0x1F48, 0x1F4D, 1),
     (0x1F59, 0x1F5F, 2), (0x1F68, 0x1F6F, 1), (0x1FB8, 0x1FBB, 1), (0x1FC8, 0x1FCB, 1),
     (0x1FD8, 0x1FDB, 1), (0x1FE8, 0x1FEC, 1), (0x1FF8, 0x1FFB, 1), (0x2102, 0x2102, 1),
     (0x2107, 0x2107, 1), (0x210B, 0x210D, 1), (0x2110, 0x2112, 1), (0x2115, 0x2115, 1),
     (0x2119, 0x211D, 1), (0x2124, 0x212A, 2), (0x212B, 0x212D, 1), (0x2130, 0x2133, 1),
     (0x213E, 0x213F, 1), (0x2145, 0x2145, 1), (0x2183, 0x2183, 1), (0x2C00, 0x2C2F, 1),
     (0x2C60, 0x2C62, 2), (0x2C63, 0x2C64, 1), (0x2C67, 0x2C6D, 2), (0x2C6E, 0x2C70, 1),
     (0x2C72, 0x2C72, 1), (0x2C75, 0x2C75, 1), (0x2C7E, 0x2C80, 1), (0x2C82, 0x2CE2, 2),
     (0x2CEB, 0x2CED, 2), (0x2CF2, 0x2CF2, 1), (0xA640, 0xA66C, 2), (0xA680, 0xA69A, 2),
     (0xA722, 0xA72E, 2), (0xA732, 0xA76E, 2), (0xA779, 0xA77D, 2), (0xA77E, 0xA786, 2),
     (0xA78B, 0xA78D, 2), (0xA790, 0xA792, 2), (0xA796, 0xA7AA, 2), (0xA7AB, 0xA7AE, 1),
     (0xA7B0, 0xA7B4, 1), (0xA7B6, 0xA7C4, 2), (0xA7C5, 0xA7C7, 1), (0xA7C9, 0xA7C9, 1),
     (0xA7D0, 0xA7D0, 1), (0xA7D6, 0xA7D8, 2), (0xA7F5, 0xA7F5, 1), (0xFF21, 0xFF3A, 1),
     (0x10400, 0x10427, 1), (0x104B0, 0x104D3, 1), (0x10570, 0x1057A, 1), (0x1057C, 0x1058A, 1),
     (0x1058C, 0x10592, 1), (0x10594, 0x10595, 1), (0x10C80, 0x10CB2, 1), (0x118A0, 0x118BF, 1),
     (0x16E40, 0x16E5F, 1), (0x1D400, 0x1D419, 1), (0x1D434, 0x1D44D, 1), (0x1D468, 0x1D481, 1),
     (0x1D49C, 0x1D49E, 2), (0x1D49F, 0x1D49F, 1), (0x1D4A2, 0x1D4A2, 1), (0x1D4A5, 0x1D4A6, 1),
     (0x1D4A9, 0x1D4AC, 1), (0x1D4AE, 0x1D4B5, 1), (0x1D4D0, 0x1D4E9, 1), (0x1D504, 0x1D505, 1),
     (0x1D507, 0x1D50A, 1), (0x1D50D, 0x1D514, 1), (0x1D516, 0x1D51C, 1), (0x1D538, 0x1D539, 1),
     (0x1D53B, 0x1D53E, 1), (0x1D540, 0x1D544, 1), (0x1D546, 0x1D546, 1), (0x1D54A, 0x1D550, 1),
     (0x1D56C, 0x1D585, 1), (0x1D5A0, 0x1D5B9, 1), (0x1D5D4, 0x1D5ED, 1), (0x1D608, 0x1D621, 1),
     (0x1D63C, 0x1D655, 1), (0x1D670, 0x1D689, 1), (0x1D6A8, 0x1D6C0, 1), (0x1D6E2, 0x1D6FA, 1),
     (0x1D71C, 0x1D734, 1), (0x1D756, 0x1D76E, 1), (0x1D790, 0x1D7A8, 1), (0x1D7CA, 0x1D7CA, 1),
     (0x1E900, 0x1E921, 1)]"

fun in_stepped :: "nat \<Rightarrow> (nat \<times> nat \<times> nat) list \<Rightarrow> bool" where
  "in_stepped c [] = False"
| "in_stepped c ((lo, hi, step) # rs) =
     (if c < lo then False
      else if c \<le> hi \<and> (c - lo) mod step = 0 then True
      else in_stepped c rs)"

definition isUpperCase :: "nat \<Rightarrow> bool" where
  "isUpperCase c = in_stepped c upper_table"

text \<open>The code points that \<^verbatim>\<open>toLowerCase\<close> replaces by others.\<close>

definition has_lower_case :: "nat \<Rightarrow> bool" where
  "has_lower_case c \<longleftrightarrow> c = 0x0130 \<or> simple_lower c \<noteq> c"

text \<open>
  The code points that an entry of the table maps, what it maps them to, and a test that
  what the first entry maps to is not mapped by the second: the intervals are apart, or
  the two progressions have distinct parities.
\<close>

fun in_range :: "nat \<times> nat \<times> nat \<times> nat \<Rightarrow> nat \<Rightarrow> bool" where
  "in_range (lo, hi, step, target) c \<longleftrightarrow> lo \<le> c \<and> c \<le> hi \<and> (c - lo) mod step = 0"

fun image_of :: "nat \<times> nat \<times> nat \<times> nat \<Rightarrow> nat \<Rightarrow> nat" where
  "image_of (lo, hi, step, target) c = target + (c - lo)"

fun image_avoids :: "nat \<times> nat \<times> nat \<times> nat \<Rightarrow> nat \<times> nat \<times> nat \<times> nat \<Rightarrow> bool" where
  "image_avoids (lo1, hi1, step1, target1) (lo2, hi2, step2, target2) \<longleftrightarrow>
     target1 + (hi1 - lo1) < lo2 \<or> hi2 < target1
     \<or> ((step1 = 2 \<or> lo1 = hi1) \<and> (step2 = 2 \<or> lo2 = hi2) \<and> odd (target1 + lo2))"

subsection \<open>Plain objects\<close>

text \<open>
  An object created by \<^verbatim>\<open>{}\<close> or by an object literal is modelled by its own properties;
  its prototype is \<^verbatim>\<open>Object.prototype\<close>. Reading \<^verbatim>\<open>obj[k]\<close> finds an own property first
  and an inherited one otherwise: the accessor \<^verbatim>\<open>__proto__\<close> (which yields
  \<^verbatim>\<open>Object.prototype\<close> itself), \<^verbatim>\<open>constructor\<close> (the function \<^verbatim>\<open>Object\<close>) and ten
  built-in methods. Any other key reads as \<^verbatim>\<open>undefined\<close>.
\<close>

type_synonym 'v object = "jsstring \<rightharpoonup> 'v"

datatype 'v jsvalue = Undefined | Own 'v | NativeFunction jsstring | ObjectPrototype

definition Object_prototype :: "jsstring \<Rightarrow> 'v jsvalue" where
  "Object_prototype k =
     (if k = ascii ''__proto__'' then ObjectPrototype
      else if k = ascii ''constructor'' then NativeFunction (ascii ''Object'')
      else if k \<in> set [ascii ''toString'', ascii ''toLocaleString'', ascii ''valueOf'', ascii ''hasOwnProperty'',
                        ascii ''isPrototypeOf'', ascii ''propertyIsEnumerable'', ascii ''__defineGetter__'',
                        ascii ''__defineSetter__'', ascii ''__lookupGetter__'', ascii ''__lookupSetter__'']
      then NativeFunction k
      else Undefined)"

definition get_property :: "'v object \<Rightarrow> jsstring \<Rightarrow> 'v jsvalue" where
  "get_property obj k = (case obj k of Some v \<Rightarrow> Own v | None \<Rightarrow> Object_prototype k)"

text \<open>
  The assignment \<^verbatim>\<open>obj[k] = v\<close> of a primitive value \<^verbatim>\<open>v\<close> (a number or a string, the
  only values the program assigns). It creates or updates an own property, except that
  \<^verbatim>\<open>__proto__\<close>, when it is not an own property, is the inherited setter, which ignores a
  primitive value.
\<close>

definition set_property :: "'v object \<Rightarrow> jsstring \<Rightarrow> 'v \<Rightarrow> 'v object" where
  "set_property obj k v = (if obj k = None \<and> k = ascii ''__proto__'' then obj else obj(k \<mapsto> v))"

subsection \<open>Numbers\<close>

text \<open>
  The values of \<^verbatim>\<open>neededItems\<close> are primitive: a count or a string. Counts are natural
  numbers (the increments of a double are exact below \<open>2 ^ 53\<close>).
\<close>

datatype prim = Num nat | Str jsstring

text \<open>
  \<^verbatim>\<open>(v || 0) + 1\<close>: a falsy \<^verbatim>\<open>v\<close> (\<^verbatim>\<open>undefined\<close>, \<^verbatim>\<open>0\<close>, the empty string) counts as 0;
  a string, and an object converted to a string, is concatenated with \<^verbatim>\<open>"1"\<close>. A built-in
  function prints as \<^verbatim>\<open>function f() { [native code] }\<close>, \<^verbatim>\<open>Object.prototype\<close> as
  \<^verbatim>\<open>[object Object]\<close>.
\<close>

fun or_zero_plus_one :: "prim jsvalue \<Rightarrow> prim" where
  "or_zero_plus_one Undefined = Num 1"
| "or_zero_plus_one (Own (Num n)) = Num (n + 1)"
| "or_zero_plus_one (Own (Str s)) = (if s = [] then Num 1 else Str (s @ ascii ''1''))"
| "or_zero_plus_one (NativeFunction f) = Str (ascii ''function '' @ f @ ascii ''() { [native code] }'' @ ascii ''1'')"
| "or_zero_plus_one ObjectPrototype = Str (ascii ''[object Object]'' @ ascii ''1'')"

text \<open>
  The nutrient quantities and their totals. The quantities are of any type \<open>'q\<close> with a
  zero and an addition; a total is such a quantity or \<^verbatim>\<open>NaN\<close>, which is what adding
  \<^verbatim>\<open>undefined\<close> gives and which every later addition keeps.
\<close>

datatype 'q number = NaN | Val 'q

fun js_plus :: "'q::plus number \<Rightarrow> 'q number \<Rightarrow> 'q number" where
  "js_plus (Val a) (Val b) = Val (a + b)"
| "js_plus _ _ = NaN"

text \<open>
  The quantities of the program are non-negative doubles: \<open>Finite m e\<close> is \<open>m * 2 ^ e\<close> in
  the encoding of IEEE-754 binary64 (\<open>m < 2 ^ 53\<close>, \<open>- 1074 \<le> e \<le> 971\<close>, and
  \<open>2 ^ 52 \<le> m\<close> unless \<open>e = - 1074\<close>), so that equal numbers are equal values of the type.
  \<open>round_to_double p q\<close> is the double nearest to the rational \<open>p / q\<close>, ties to even, which
  is how a decimal literal is read and how a sum is rounded.
\<close>

datatype dbl = Finite nat int | Infinity

definition pack :: "nat \<Rightarrow> int \<Rightarrow> dbl" where
  "pack m e =
     (if m = 2 ^ 53 then (if 971 < e + 1 then Infinity else Finite (2 ^ 52) (e + 1))
      else if 971 < e then Infinity else Finite m e)"

definition half_even :: "nat \<Rightarrow> nat \<Rightarrow> nat \<Rightarrow> nat" where
  "half_even m r den = (if den < 2 * r \<or> (2 * r = den \<and> odd m) then m + 1 else m)"

definition round_div :: "nat \<Rightarrow> nat \<Rightarrow> int \<Rightarrow> dbl" where
  "round_div num den e = pack (half_even (num div den) (num mod den) den) e"

definition round_at :: "nat \<Rightarrow> nat \<Rightarrow> int \<Rightarrow> dbl" where
  "round_at p q e =
     (if e < 0 then round_div (p * 2 ^ nat (- e)) q e else round_div p (q * 2 ^ nat e) e)"

definition floor_log2_at :: "nat \<Rightarrow> nat \<Rightarrow> int \<Rightarrow> int" where
  "floor_log2_at p q d =
     (if (if 0 \<le> d then q * 2 ^ nat d \<le> p else q \<le> p * 2 ^ nat (- d)) then d else d - 1)"

definition floor_log2 :: "nat \<Rightarrow> nat \<Rightarrow> int" where
  "floor_log2 p q = floor_log2_at p q (int (floorlog 2 p) - int (floorlog 2 q))"

definition round_to_double :: "nat \<Rightarrow> nat \<Rightarrow> dbl" where
  "round_to_double p q =
     (if p = 0 then Finite 0 (- 1074) else round_at p q (max (floor_log2 p q - 52) (- 1074)))"

definition add_at :: "nat \<Rightarrow> int \<Rightarrow> dbl" where
  "add_at p e =
     (if e < 0 then round_to_double p (2 ^ nat (- e)) else round_to_double (p * 2 ^ nat e) 1)"

definition add_aligned :: "nat \<Rightarrow> int \<Rightarrow> nat \<Rightarrow> int \<Rightarrow> int \<Rightarrow> dbl" where
  "add_aligned m1 e1 m2 e2 e = add_at (m1 * 2 ^ nat (e1 - e) + m2 * 2 ^ nat (e2 - e)) e"

fun dbl_add :: "dbl \<Rightarrow> dbl \<Rightarrow> dbl" where
  "dbl_add (Finite m1 e1) (Finite m2 e2) =
     (if m1 = 0 then Finite m2 e2
      else if m2 = 0 then Finite m1 e1
      else add_aligned m1 e1 m2 e2 (min e1 e2))"
| "dbl_add _ _ = Infinity"

instantiation dbl :: "{zero, plus}"
begin

definition zero_dbl :: dbl where
  "zero_dbl = Finite 0 (- 1074)"

definition plus_dbl :: "dbl \<Rightarrow> dbl \<Rightarrow> dbl" where
  "plus_dbl = dbl_add"

instance ..

end

text \<open>The decimal literal \<^verbatim>\<open>i.t\<close> with one digit after the point (\<^verbatim>\<open>100\<close> is \<open>literal 100 0\<close>).\<close>

definition literal :: "nat \<Rightarrow> nat \<Rightarrow> dbl" where
  "literal i t = round_to_double (10 * i + t) 10"

text \<open>The rational number that a finite double stands for.\<close>

fun dbl_value :: "dbl \<Rightarrow> rat option" where
  "dbl_value (Finite m e) = Some (of_nat m * 2 powi e)"
| "dbl_value Infinity = None"

subsection \<open>Recipes, inventory, nutrient facts\<close>

text \<open>
  A recipe as the store returns it. \<open>ingredients r = None\<close> is a recipe object without the
  property \<^verbatim>\<open>ingredients\<close> (it reads as \<^verbatim>\<open>undefined\<close>); the forms of the program always
  store a list of strings.
\<close>

record recipe =
  title :: jsstring
  content :: jsstring
  ingredients :: "jsstring list option"

record inventory_item =
  name :: jsstring
  quantity :: int

record 'q nutrient =
  carbs :: 'q
  protein :: 'q
  fat :: 'q

record 'q totals =
  totalCarbs :: "'q number"
  totalProtein :: "'q number"
  totalFat :: "'q number"

datatype error = TypeError

subsection \<open>The shopping list\<close>

text \<open>
  \<^verbatim>\<open>new Map(inventory.map(item => [item.name.toLowerCase(), item.quantity]))\<close>: the pairs
  are entered in the order of the snapshot, a later pair replacing an earlier one with the
  same key.
\<close>

definition inventoryMap :: "inventory_item list \<Rightarrow> (jsstring \<rightharpoonup> int)" where
  "inventoryMap inventory =
     foldl (\<lambda>m item. m(toLowerCase (name item) \<mapsto> quantity item)) Map.empty inventory"

text \<open>\<^verbatim>\<open>inventoryMap.get(ingredient.toLowerCase()) || 0\<close>\<close>

definition stock :: "(jsstring \<rightharpoonup> int) \<Rightarrow> jsstring \<Rightarrow> int" where
  "stock m ingredient = (case m (toLowerCase ingredient) of None \<Rightarrow> 0 | Some q \<Rightarrow> q)"

text \<open>The body of the inner \<^verbatim>\<open>forEach\<close>, for one ingredient.\<close>

definition addNeed :: "(jsstring \<rightharpoonup> int) \<Rightarrow> prim object \<Rightarrow> jsstring \<Rightarrow> prim object" where
  "addNeed m neededItems ingredient =
     (if stock m ingredient = 0
      then set_property neededItems ingredient
             (or_zero_plus_one (get_property neededItems ingredient))
      else neededItems)"

text \<open>
  The outer \<^verbatim>\<open>forEach\<close>. \<^verbatim>\<open>recipe.ingredients.forEach\<close> throws a \<^verbatim>\<open>TypeError\<close> when the
  property is missing; the exception leaves both loops and is caught at the end of
  \<^verbatim>\<open>displayShoppingList\<close>, which then shows an error and no list.
\<close>

fun collectNeeds :: "(jsstring \<rightharpoonup> int) \<Rightarrow> prim object \<Rightarrow> recipe list \<Rightarrow> error + prim object" where
  "collectNeeds m neededItems [] = Inr neededItems"
| "collectNeeds m neededItems (r # recipes) =
     (case ingredients r of
        None \<Rightarrow> Inl TypeError
      | Some xs \<Rightarrow> collectNeeds m (foldl (addNeed m) neededItems xs) recipes)"

definition computeShoppingNeeds :: "recipe list \<Rightarrow> inventory_item list \<Rightarrow> error + prim object" where
  "computeShoppingNeeds recipes inventory = collectNeeds (inventoryMap inventory) Map.empty recipes"

subsection \<open>The nutrition totals\<close>

definition fact :: "dbl \<Rightarrow> dbl \<Rightarrow> dbl \<Rightarrow> dbl nutrient" where
  "fact c p f = \<lparr>carbs = c, protein = p, fat = f\<rparr>"

definition NUTRIENT_DATA :: "dbl nutrient object" where
  "NUTRIENT_DATA = map_of
     [([0x5375], fact (literal 0 6) (literal 12 6) (literal 10 6)),
      (ascii ''egg'', fact (literal 0 6) (literal 12 6) (literal 10 6)),
      ([0x725B, 0x4E73],
         fact (literal 4 8) (literal 3 3) (literal 3 8)),
      (ascii ''milk'', fact (literal 4 8) (literal 3 3) (literal 3 8)),
      ([0x7802, 0x7CD6],
         fact (literal 100 0) (literal 0 0) (literal 0 0)),
      (ascii ''sugar'', fact (literal 100 0) (literal 0 0) (literal 0 0)),
      ([0x3058, 0x3083, 0x304C, 0x3044, 0x3082],
         fact (literal 17 5) (literal 2 0) (literal 0 1)),
      (ascii ''potato'', fact (literal 17 5) (literal 2 0) (literal 0 1)),
      ([0x7389, 0x306D, 0x304E],
         fact (literal 7 6) (literal 1 1) (literal 0 1)),
      (ascii ''onion'', fact (literal 7 6) (literal 1 1) (literal 0 1)),
      ([0x8C5A, 0x8089],
         fact (literal 0 0) (literal 22 0) (literal 15 0)),
      (ascii ''pork'', fact (literal 0 0) (literal 22 0) (literal 15 0)),
      ([0x4EBA, 0x53C2],
         fact (literal 8 2) (literal 0 9) (literal 0 2)),
      (ascii ''carrot'', fact (literal 8 2) (literal 0 9) (literal 0 2))]"

text \<open>
  The body of the inner \<^verbatim>\<open>forEach\<close>, for one ingredient: \<^verbatim>\<open>nutrient\<close> is what the table
  holds, or inherits, under the lower-cased name; when it is truthy its three fields are
  added. An inherited value is truthy and has none of the fields, so that \<^verbatim>\<open>undefined\<close> is
  added to each total.
\<close>

definition addNutrient :: "'q::plus nutrient object \<Rightarrow> 'q totals \<Rightarrow> jsstring \<Rightarrow> 'q totals" where
  "addNutrient table t ingredient =
     (case get_property table (toLowerCase ingredient) of
        Undefined \<Rightarrow> t
      | Own nutrient \<Rightarrow>
          \<lparr>totalCarbs = js_plus (totalCarbs t) (Val (carbs nutrient)),
           totalProtein = js_plus (totalProtein t) (Val (protein nutrient)),
           totalFat = js_plus (totalFat t) (Val (fat nutrient))\<rparr>
      | NativeFunction f \<Rightarrow> \<lparr>totalCarbs = NaN, totalProtein = NaN, totalFat = NaN\<rparr>
      | ObjectPrototype \<Rightarrow> \<lparr>totalCarbs = NaN, totalProtein = NaN, totalFat = NaN\<rparr>)"

text \<open>\<^verbatim>\<open>recipe.ingredients || []\<close>\<close>

definition ingredients_or_empty :: "recipe \<Rightarrow> jsstring list" where
  "ingredients_or_empty r = (case ingredients r of None \<Rightarrow> [] | Some xs \<Rightarrow> xs)"

definition zero_totals :: "'q::zero totals" where
  "zero_totals = \<lparr>totalCarbs = Val 0, totalProtein = Val 0, totalFat = Val 0\<rparr>"

definition computeTotals :: "recipe list \<Rightarrow> 'q::{plus,zero} nutrient object \<Rightarrow> 'q totals" where
  "computeTotals recipes table =
     foldl (\<lambda>t r. foldl (addNutrient table) t (ingredients_or_empty r)) zero_totals recipes"

subsection \<open>What the specification speaks of\<close>

text \<open>
  The ingredient strings of all recipes, in the order in which the loops visit them (a
  recipe without the property contributes none).
\<close>

definition all_ingredients :: "recipe list \<Rightarrow> jsstring list" where
  "all_ingredients recipes = concat (map ingredients_or_empty recipes)"

text \<open>The number of recipes whose ingredient list contains the spelling \<open>k\<close>.\<close>

definition recipes_containing :: "recipe list \<Rightarrow> jsstring \<Rightarrow> nat" where
  "recipes_containing recipes k =
     length (filter (\<lambda>r. k \<in> set (ingredients_or_empty r)) recipes)"

text \<open>The twelve property names that every plain object inherits.\<close>

definition inherited :: "jsstring \<Rightarrow> bool" where
  "inherited k \<longleftrightarrow> (Object_prototype k :: unit jsvalue) \<noteq> Undefined"

text \<open>A recipe reduced to the occurrences of one spelling.\<close>

definition only_spelling :: "jsstring \<Rightarrow> recipe \<Rightarrow> recipe" where
  "only_spelling k r = r\<lparr>ingredients := map_option (filter (\<lambda>i. i = k)) (ingredients r)\<rparr>"

text \<open>
  The table entries found under the lower-cased names of all ingredient occurrences, one
  for each occurrence that has an entry, and their sum from left to right.
\<close>

definition matched_facts :: "'q nutrient object \<Rightarrow> recipe list \<Rightarrow> 'q nutrient list" where
  "matched_facts table recipes =
     List.map_filter (\<lambda>i. table (toLowerCase i)) (all_ingredients recipes)"

definition add_fact :: "'q::plus totals \<Rightarrow> 'q nutrient \<Rightarrow> 'q totals" where
  "add_fact t n =
     \<lparr>totalCarbs = js_plus (totalCarbs t) (Val (carbs n)),
      totalProtein = js_plus (totalProtein t) (Val (protein n)),
      totalFat = js_plus (totalFat t) (Val (fat n))\<rparr>"

definition sum_facts :: "'q::{plus,zero} nutrient list \<Rightarrow> 'q totals" where
  "sum_facts ns = foldl add_fact zero_totals ns"

text \<open>The component-wise sum of two triples of totals.\<close>

definition totals_plus :: "'q::plus totals \<Rightarrow> 'q totals \<Rightarrow> 'q totals" where
  "totals_plus a b =
     \<lparr>totalCarbs = js_plus (totalCarbs a) (totalCarbs b),
      totalProtein = js_plus (totalProtein a) (totalProtein b),
      totalFat = js_plus (totalFat a) (totalFat b)\<rparr>"

section \<open>Properties\<close>

subsection \<open>Evaluation\<close>

text \<open>The equations that evaluate the definitions on concrete inputs.\<close>

lemmas string_eval = ascii_def toLowerCase_def simple_lower_def lower_table_def
  final_sigma_def cased_def case_ignorable_def cased_table_def case_ignorable_table_def
  isUpperCase_def upper_table_def has_lower_case_def

lemmas needs_eval = computeShoppingNeeds_def inventoryMap_def addNeed_def stock_def
  set_property_def get_property_def Object_prototype_def

lemmas dbl_eval = pack_def half_even_def round_div_def round_at_def floor_log2_at_def
  floor_log2_def round_to_double_def add_at_def add_aligned_def compute_floorlog literal_def
  plus_dbl_def zero_dbl_def

subsection \<open>Lower-case strings\<close>

text \<open>
  Some values of \<^verbatim>\<open>toLowerCase\<close>: ASCII letters, the accented and the full-width capital E
  next to a Japanese character, a word that ends in sigma, a sigma before an apostrophe
  and a letter, the capital I with dot above.
\<close>

lemma toLowerCase_examples:
  "toLowerCase (ascii ''Egg'') = ascii ''egg''"
  "toLowerCase (ascii ''unknown-item'') = ascii ''unknown-item''"
  "toLowerCase [0x00C9, 0xFF25, 0x5375] = [0x00E9, 0xFF45, 0x5375]"
  "toLowerCase [0x039F, 0x0394, 0x039F, 0x03A3] = [0x03BF, 0x03B4, 0x03BF, 0x03C2]"
  "toLowerCase [0x0041, 0x03A3, 0x0027, 0x0041] = [0x0061, 0x03C3, 0x0027, 0x0061]"
  "toLowerCase [0x0130] = [0x0069, 0x0307]"
  by (simp_all add: string_eval)

text \<open>
  No code point that the table maps to is itself mapped by the table, and none is U+0130.
  This is checked entry by entry.
\<close>

lemma lower_table_image:
  "list_all (\<lambda>r. list_all (image_avoids r) ((0x0130, 0x0130, 1, 0) # lower_table)) lower_table"
  by (simp add: lower_table_def)

lemma lookup_lower_cases:
  "lookup_lower c T = c \<or> (\<exists>r \<in> set T. in_range r c \<and> lookup_lower c T = image_of r c)"
  by (induction c T rule: lookup_lower.induct) auto

lemma lookup_lower_outside: "\<forall>r \<in> set T. \<not> in_range r y \<Longrightarrow> lookup_lower y T = y"
  by (induction y T rule: lookup_lower.induct) auto

lemma image_avoids_sound:
  assumes "image_avoids r1 r2" and "in_range r1 c"
  shows "\<not> in_range r2 (image_of r1 c)"
proof -
  obtain lo1 hi1 step1 target1 where r1: "r1 = (lo1, hi1, step1, target1)"
    by (cases r1)
  obtain lo2 hi2 step2 target2 where r2: "r2 = (lo2, hi2, step2, target2)"
    by (cases r2)
  from assms show ?thesis
    unfolding r1 r2 by (auto simp: mod_2_eq_odd)
qed

lemma simple_lower_image:
  assumes "c \<noteq> 0x0130"
  shows "\<not> has_lower_case (simple_lower c)"
proof -
  consider "simple_lower c = c"
    | r where "r \<in> set lower_table" "in_range r c" "simple_lower c = image_of r c"
    using lookup_lower_cases [of c lower_table] by (auto simp: simple_lower_def)
  then show ?thesis
  proof cases
    case 1
    with assms show ?thesis by (simp add: has_lower_case_def)
  next
    case 2
    from lower_table_image 2(1)
    have a: "\<forall>r2 \<in> set ((0x0130, 0x0130, 1, 0) # lower_table). image_avoids r r2"
      by (simp add: list_all_iff)
    have n: "\<not> in_range r2 (image_of r c)"
      if "r2 \<in> set ((0x0130, 0x0130, 1, 0) # lower_table)" for r2
      using a that 2(2) image_avoids_sound by blast
    have "\<not> in_range (0x0130, 0x0130, 1, 0) (image_of r c)"
      by (rule n) simp
    then have "image_of r c \<noteq> 0x0130"
      by auto
    moreover have "lookup_lower (image_of r c) lower_table = image_of r c"
      by (rule lookup_lower_outside) (simp add: n)
    ultimately show ?thesis
      using 2(3) by (simp add: has_lower_case_def simple_lower_def)
  qed
qed

lemma sigma_has_lower_case: "has_lower_case 0x03A3"
  by (simp add: has_lower_case_def simple_lower_def lower_table_def)

lemma special_outputs:
  "\<not> has_lower_case 0x03C2" "\<not> has_lower_case 0x03C3"
  "\<not> has_lower_case 0x0069" "\<not> has_lower_case 0x0307"
  by (simp_all add: has_lower_case_def simple_lower_def lower_table_def)

text \<open>The letters A to Z are replaced.\<close>

lemma ascii_capital_has_lower_case: "0x41 \<le> c \<Longrightarrow> c \<le> 0x5A \<Longrightarrow> has_lower_case c"
  by (simp add: has_lower_case_def simple_lower_def lower_table_def)

text \<open>
  A lower-cased string holds no code point that \<^verbatim>\<open>toLowerCase\<close> replaces, and a string
  without such a code point is its own lower-cased form; so \<^verbatim>\<open>toLowerCase\<close> is idempotent,
  and it yields no string that it would change.
\<close>

lemma lower_from_output: "c \<in> set (lower_from before s) \<Longrightarrow> \<not> has_lower_case c"
  by (induction before s rule: lower_from.induct)
     (auto simp: special_outputs simple_lower_image split: if_splits)

lemma lower_from_unchanged:
  "\<forall>c \<in> set s. \<not> has_lower_case c \<Longrightarrow> lower_from before s = s"
proof (induction before s rule: lower_from.induct)
  case (1 before)
  show ?case by simp
next
  case (2 before c after)
  then have c: "\<not> has_lower_case c" and r: "lower_from (c # before) after = after"
    by simp_all
  from c sigma_has_lower_case have "c \<noteq> 0x03A3"
    by auto
  with c r show ?case
    by (simp add: has_lower_case_def)
qed

lemma toLowerCase_fixed_iff: "toLowerCase s = s \<longleftrightarrow> (\<forall>c \<in> set s. \<not> has_lower_case c)"
proof
  assume "toLowerCase s = s"
  then have "set (lower_from [] s) = set s"
    by (simp add: toLowerCase_def)
  with lower_from_output show "\<forall>c \<in> set s. \<not> has_lower_case c"
    by blast
next
  assume "\<forall>c \<in> set s. \<not> has_lower_case c"
  then show "toLowerCase s = s"
    by (simp add: toLowerCase_def lower_from_unchanged)
qed

lemma toLowerCase_idempotent: "toLowerCase (toLowerCase s) = toLowerCase s"
proof -
  have "\<forall>c \<in> set (toLowerCase s). \<not> has_lower_case c"
    using lower_from_output by (auto simp: toLowerCase_def)
  then show ?thesis
    by (simp only: toLowerCase_fixed_iff)
qed

lemma toLowerCase_neq_key: "\<exists>c \<in> set k. has_lower_case c \<Longrightarrow> toLowerCase i \<noteq> k"
  using lower_from_output by (auto simp: toLowerCase_def)

subsection \<open>Inherited property names\<close>

lemma Object_prototype_not_inherited:
  "\<not> inherited k \<Longrightarrow> (Object_prototype k :: 'v jsvalue) = Undefined"
  by (auto simp: Object_prototype_def inherited_def split: if_splits)

subsection \<open>The shopping-list loops\<close>

lemma not_inherited_proto: "\<not> inherited k \<Longrightarrow> k \<noteq> ascii ''__proto__''"
  by (auto simp: inherited_def Object_prototype_def)

lemma addNeed_other: "k \<noteq> i \<Longrightarrow> addNeed m needed i k = needed k"
  by (simp add: addNeed_def set_property_def)

lemma foldl_addNeed_notin:
  "k \<notin> set xs \<Longrightarrow> foldl (addNeed m) needed xs k = needed k"
  by (induction xs arbitrary: needed) (auto simp: addNeed_other)

lemma addNeed_stocked: "stock m i \<noteq> 0 \<Longrightarrow> addNeed m needed i = needed"
  by (simp add: addNeed_def)

lemma foldl_addNeed_stocked:
  "stock m k \<noteq> 0 \<Longrightarrow> foldl (addNeed m) needed xs k = needed k"
proof (induction xs arbitrary: needed)
  case Nil
  then show ?case by simp
next
  case (Cons x xs)
  show ?case
  proof (cases "x = k")
    case True
    with Cons show ?thesis by (simp add: addNeed_stocked)
  next
    case False
    with Cons show ?thesis by (simp add: addNeed_other)
  qed
qed

lemma addNeed_count:
  "\<not> inherited k \<Longrightarrow> stock m k = 0 \<Longrightarrow> needed k = Some (Num n) \<Longrightarrow>
   addNeed m needed k k = Some (Num (n + 1))"
  by (simp add: addNeed_def set_property_def get_property_def)

lemma addNeed_first:
  "\<not> inherited k \<Longrightarrow> stock m k = 0 \<Longrightarrow> needed k = None \<Longrightarrow>
   addNeed m needed k k = Some (Num 1)"
  using not_inherited_proto [of k]
  by (simp add: addNeed_def set_property_def get_property_def Object_prototype_not_inherited)

lemma foldl_addNeed_count:
  "\<not> inherited k \<Longrightarrow> stock m k = 0 \<Longrightarrow> needed k = Some (Num n) \<Longrightarrow>
   foldl (addNeed m) needed xs k = Some (Num (n + count_list xs k))"
proof (induction xs arbitrary: needed n)
  case Nil
  then show ?case by simp
next
  case (Cons x xs)
  show ?case
  proof (cases "x = k")
    case True
    have "addNeed m needed k k = Some (Num (n + 1))"
      using Cons.prems by (rule addNeed_count)
    with Cons.IH [of "addNeed m needed k" "n + 1"] Cons.prems(1,2) True show ?thesis by simp
  next
    case False
    then have "addNeed m needed x k = Some (Num n)"
      using Cons.prems(3) by (simp add: addNeed_other)
    with Cons.IH [of "addNeed m needed x" n] Cons.prems(1,2) False show ?thesis by simp
  qed
qed

lemma foldl_addNeed_fresh:
  "\<not> inherited k \<Longrightarrow> stock m k = 0 \<Longrightarrow> needed k = None \<Longrightarrow>
   foldl (addNeed m) needed xs k =
     (if count_list xs k = 0 then None else Some (Num (count_list xs k)))"
proof (induction xs arbitrary: needed)
  case Nil
  then show ?case by simp
next
  case (Cons x xs)
  show ?case
  proof (cases "x = k")
    case True
    have "addNeed m needed k k = Some (Num 1)"
      using Cons.prems by (rule addNeed_first)
    with foldl_addNeed_count [of k m "addNeed m needed k" 1 xs] Cons.prems(1,2) True
    show ?thesis by simp
  next
    case False
    then have "addNeed m needed x k = None"
      using Cons.prems(3) by (simp add: addNeed_other)
    with Cons.IH [of "addNeed m needed x"] Cons.prems(1,2) False show ?thesis by simp
  qed
qed

lemma collectNeeds_eq:
  "collectNeeds m needed recipes =
     (if \<forall>r \<in> set recipes. ingredients r \<noteq> None
      then Inr (foldl (addNeed m) needed (all_ingredients recipes))
      else Inl TypeError)"
  by (induction recipes arbitrary: needed)
     (auto simp: all_ingredients_def ingredients_or_empty_def split: option.splits)

lemma computeShoppingNeeds_eq:
  "computeShoppingNeeds recipes inventory =
     (if \<forall>r \<in> set recipes. ingredients r \<noteq> None
      then Inr (foldl (addNeed (inventoryMap inventory)) Map.empty (all_ingredients recipes))
      else Inl TypeError)"
  by (simp add: computeShoppingNeeds_def collectNeeds_eq)

lemma needs_foldl:
  "computeShoppingNeeds recipes inventory = Inr needs \<Longrightarrow>
   needs = foldl (addNeed (inventoryMap inventory)) Map.empty (all_ingredients recipes)"
  by (simp add: computeShoppingNeeds_eq split: if_splits)

lemma needs_key:
  assumes "computeShoppingNeeds recipes inventory = Inr needs" and "needs k = Some v"
  shows "k \<in> set (all_ingredients recipes) \<and> stock (inventoryMap inventory) k = 0"
proof -
  let ?m = "inventoryMap inventory"
  have n: "needs = foldl (addNeed ?m) Map.empty (all_ingredients recipes)"
    using assms(1) by (rule needs_foldl)
  have "k \<in> set (all_ingredients recipes)"
  proof (rule ccontr)
    assume "k \<notin> set (all_ingredients recipes)"
    then have "needs k = None"
      unfolding n by (simp add: foldl_addNeed_notin)
    with assms(2) show False by simp
  qed
  moreover have "stock ?m k = 0"
  proof (rule ccontr)
    assume "stock ?m k \<noteq> 0"
    then have "needs k = None"
      unfolding n by (simp add: foldl_addNeed_stocked)
    with assms(2) show False by simp
  qed
  ultimately show ?thesis by simp
qed

lemma needs_entry:
  assumes "computeShoppingNeeds recipes inventory = Inr needs" and "\<not> inherited k"
  shows "needs k =
    (if stock (inventoryMap inventory) k = 0 \<and> k \<in> set (all_ingredients recipes)
     then Some (Num (count_list (all_ingredients recipes) k)) else None)"
proof -
  let ?m = "inventoryMap inventory"
  have n: "needs = foldl (addNeed ?m) Map.empty (all_ingredients recipes)"
    using assms(1) by (rule needs_foldl)
  show ?thesis
  proof (cases "stock ?m k = 0")
    case True
    then show ?thesis
      unfolding n using assms(2)
      by (simp add: foldl_addNeed_fresh count_list_0_iff)
  next
    case False
    then show ?thesis
      unfolding n by (simp add: foldl_addNeed_stocked)
  qed
qed

lemma foldl_update_find:
  "foldl (\<lambda>m x. m(f x \<mapsto> g x)) m0 xs k =
     (case find (\<lambda>x. f x = k) (rev xs) of None \<Rightarrow> m0 k | Some x \<Rightarrow> Some (g x))"
  by (induction xs rule: rev_induct) simp_all

lemma inventoryMap_find:
  "inventoryMap inventory k =
     map_option quantity (find (\<lambda>item. toLowerCase (name item) = k) (rev inventory))"
  by (simp add: inventoryMap_def foldl_update_find split: option.splits)

lemma stock_find:
  "stock (inventoryMap inventory) ingredient =
     (case find (\<lambda>item. toLowerCase (name item) = toLowerCase ingredient) (rev inventory) of
        None \<Rightarrow> 0 | Some item \<Rightarrow> quantity item)"
  by (simp add: stock_def inventoryMap_find split: option.splits)

lemma addNeed_same_entry:
  "needed k = needed' k \<Longrightarrow> addNeed m needed k k = addNeed m needed' k k"
  by (auto simp: addNeed_def set_property_def get_property_def)

lemma foldl_addNeed_filter:
  "needed k = needed' k \<Longrightarrow>
   foldl (addNeed m) needed xs k = foldl (addNeed m) needed' (filter (\<lambda>i. i = k) xs) k"
proof (induction xs arbitrary: needed needed')
  case Nil
  then show ?case by simp
next
  case (Cons x xs)
  show ?case
  proof (cases "x = k")
    case True
    have "addNeed m needed k k = addNeed m needed' k k"
      using Cons.prems by (rule addNeed_same_entry)
    with Cons.IH [of "addNeed m needed k" "addNeed m needed' k"] True show ?thesis by simp
  next
    case False
    then have "addNeed m needed x k = needed' k"
      using Cons.prems by (simp add: addNeed_other)
    with Cons.IH [of "addNeed m needed x" needed'] False show ?thesis by simp
  qed
qed

lemma all_ingredients_only_spelling:
  "all_ingredients (map (only_spelling k) recipes) = filter (\<lambda>i. i = k) (all_ingredients recipes)"
  by (induction recipes)
     (simp_all add: all_ingredients_def ingredients_or_empty_def only_spelling_def split: option.splits)

subsection \<open>The nutrition loops\<close>


lemma foldl_forEach_concat:
  "foldl (\<lambda>t r. foldl f t (g r)) t rs = foldl f t (concat (map g rs))"
  by (induction rs arbitrary: t) simp_all

lemma computeTotals_flat:
  "computeTotals recipes table = foldl (addNutrient table) zero_totals (all_ingredients recipes)"
  by (simp add: computeTotals_def all_ingredients_def foldl_forEach_concat)

lemma all_ingredients_append:
  "all_ingredients (A @ B) = all_ingredients A @ all_ingredients B"
  by (simp add: all_ingredients_def)

lemma addNutrient_absent:
  "table (toLowerCase i) = None \<Longrightarrow> \<not> inherited (toLowerCase i) \<Longrightarrow> addNutrient table t i = t"
  by (simp add: addNutrient_def get_property_def Object_prototype_not_inherited)

lemma addNutrient_present:
  "table (toLowerCase i) = Some n \<Longrightarrow> addNutrient table t i = add_fact t n"
  by (simp add: addNutrient_def get_property_def add_fact_def)

lemma foldl_addNutrient_facts:
  "\<forall>i \<in> set xs. table (toLowerCase i) = None \<longrightarrow> \<not> inherited (toLowerCase i) \<Longrightarrow>
   foldl (addNutrient table) t xs =
     foldl add_fact t (List.map_filter (\<lambda>i. table (toLowerCase i)) xs)"
proof (induction xs arbitrary: t)
  case Nil
  then show ?case by simp
next
  case (Cons x xs)
  show ?case
  proof (cases "table (toLowerCase x)")
    case None
    with Cons.prems have "addNutrient table t x = t"
      by (simp add: addNutrient_absent)
    with Cons None show ?thesis by simp
  next
    case (Some n)
    then have "addNutrient table t x = add_fact t n"
      by (rule addNutrient_present)
    with Cons Some show ?thesis by simp
  qed
qed

lemma computeTotals_sum:
  "\<forall>i \<in> set (all_ingredients recipes).
      table (toLowerCase i) = None \<longrightarrow> \<not> inherited (toLowerCase i) \<Longrightarrow>
   computeTotals recipes table = sum_facts (matched_facts table recipes)"
  by (simp add: computeTotals_flat sum_facts_def matched_facts_def foldl_addNutrient_facts)

lemma js_plus_assoc:
  "js_plus (js_plus a b) c = js_plus a (js_plus b (c :: 'q::semigroup_add number))"
  by (cases a; cases b; cases c) (simp_all add: add.assoc)

lemma js_plus_zero_left: "js_plus (Val 0) (a :: 'q::monoid_add number) = a"
  by (cases a) simp_all

lemma js_plus_zero_right: "js_plus (a :: 'q::monoid_add number) (Val 0) = a"
  by (cases a) simp_all

lemma js_plus_NaN_right: "js_plus a NaN = NaN"
  by (cases a) simp_all

lemma totals_plus_assoc:
  "totals_plus (totals_plus a b) c = totals_plus a (totals_plus b (c :: 'q::semigroup_add totals))"
  by (simp add: totals_plus_def js_plus_assoc)

lemma totals_plus_zero_left: "totals_plus zero_totals (a :: 'q::monoid_add totals) = a"
  by (simp add: totals_plus_def zero_totals_def js_plus_zero_left)

lemma totals_plus_zero_right: "totals_plus (a :: 'q::monoid_add totals) zero_totals = a"
  by (simp add: totals_plus_def zero_totals_def js_plus_zero_right)

lemma addNutrient_delta:
  "addNutrient table t i = totals_plus t (addNutrient table zero_totals (i :: jsstring))"
  for table :: "'q::monoid_add nutrient object"
  by (cases "get_property table (toLowerCase i)")
     (simp_all add: addNutrient_def totals_plus_def zero_totals_def js_plus_NaN_right
        js_plus_zero_left js_plus_zero_right)

lemma foldl_addNutrient_shift:
  "foldl (addNutrient table) t xs = totals_plus t (foldl (addNutrient table) zero_totals xs)"
  for table :: "'q::monoid_add nutrient object"
proof (induction xs arbitrary: t)
  case Nil
  show ?case by (simp add: totals_plus_zero_right)
next
  case (Cons x xs)
  have "foldl (addNutrient table) t (x # xs) =
        totals_plus (addNutrient table t x) (foldl (addNutrient table) zero_totals xs)"
    using Cons.IH [of "addNutrient table t x"] by simp
  also have "\<dots> = totals_plus (totals_plus t (addNutrient table zero_totals x))
                      (foldl (addNutrient table) zero_totals xs)"
    using addNutrient_delta [of table t x] by simp
  also have "\<dots> = totals_plus t (totals_plus (addNutrient table zero_totals x)
                      (foldl (addNutrient table) zero_totals xs))"
    by (rule totals_plus_assoc)
  also have "\<dots> = totals_plus t (foldl (addNutrient table) zero_totals (x # xs))"
    using Cons.IH [of "addNutrient table zero_totals x"] by simp
  finally show ?case .
qed

subsection \<open>The addition of doubles rounds to nearest\<close>

text \<open>
  The mantissa chosen by \<open>half_even\<close> is at most one half away from the quotient, and
  \<open>pack\<close> keeps the value.
\<close>

lemma half_even_nearest:
  assumes "0 < den"
  shows "2 * half_even (num div den) (num mod den) den * den \<le> 2 * num + den
    \<and> 2 * num \<le> 2 * half_even (num div den) (num mod den) den * den + den"
proof -
  define d where "d = num div den"
  define r where "r = num mod den"
  have n: "num = d * den + r"
    by (simp add: d_def r_def)
  have r: "r < den"
    using assms by (simp add: r_def)
  show ?thesis
  proof (cases "den < 2 * r \<or> (2 * r = den \<and> odd d)")
    case True
    then have h: "half_even d r den = d + 1"
      by (simp add: half_even_def)
    from True have "den \<le> 2 * r"
      by auto
    with r show ?thesis
      unfolding d_def [symmetric] r_def [symmetric] h by (simp add: n algebra_simps)
  next
    case False
    then have h: "half_even d r den = d"
      by (simp add: half_even_def)
    from False have "2 * r \<le> den"
      by auto
    with r show ?thesis
      unfolding d_def [symmetric] r_def [symmetric] h by (simp add: n algebra_simps)
  qed
qed

lemma pack_value:
  assumes "pack m e = Finite m' e'"
  shows "of_nat m' * 2 powi e' = (of_nat m * 2 powi e :: rat)"
proof (cases "m = 2 ^ 53")
  case True
  with assms have "m' = 2 ^ 52" "e' = e + 1"
    by (auto simp: pack_def split: if_splits)
  with True show ?thesis
    by (simp add: power_int_add)
next
  case False
  with assms have "m' = m" "e' = e"
    by (auto simp: pack_def split: if_splits)
  then show ?thesis by simp
qed

lemma round_div_error:
  assumes "0 < den" and "round_div num den e = Finite m' e'"
  shows "\<bar>of_nat m' * 2 powi e' - of_nat num / of_nat den * 2 powi e\<bar> \<le> (2 powi e / 2 :: rat)"
proof -
  define h where "h = half_even (num div den) (num mod den) den"
  have v: "of_nat m' * 2 powi e' = (of_nat h * 2 powi e :: rat)"
    using assms(2) by (simp add: round_div_def h_def pack_value)
  from half_even_nearest [OF assms(1), of num]
  have "2 * h * den \<le> 2 * num + den" and "2 * num \<le> 2 * h * den + den"
    by (simp_all add: h_def)
  then have "(of_nat (2 * h * den) :: rat) \<le> of_nat (2 * num + den)"
    and "(of_nat (2 * num) :: rat) \<le> of_nat (2 * h * den + den)"
    by (simp_all only: of_nat_le_iff)
  then have a: "2 * of_nat h * of_nat den \<le> 2 * of_nat num + (of_nat den :: rat)"
    and b: "2 * of_nat num \<le> 2 * of_nat h * of_nat den + (of_nat den :: rat)"
    by simp_all
  have d: "(0 :: rat) < of_nat den"
    using assms(1) by simp
  from a d have "of_nat h \<le> of_nat num / of_nat den + (1 / 2 :: rat)"
    by (simp add: field_simps)
  moreover from b d have "of_nat num / of_nat den \<le> of_nat h + (1 / 2 :: rat)"
    by (simp add: field_simps)
  ultimately have "\<bar>of_nat h - of_nat num / of_nat den\<bar> \<le> (1 / 2 :: rat)"
    by linarith
  moreover have p: "(0 :: rat) < 2 powi e"
    by (simp add: power_int_def)
  ultimately have "\<bar>of_nat h - of_nat num / of_nat den\<bar> * 2 powi e \<le> 1 / 2 * (2 powi e :: rat)"
    by (simp add: mult_right_mono)
  moreover have "\<bar>of_nat h * 2 powi e - of_nat num / of_nat den * (2 powi e :: rat)\<bar>
      = \<bar>of_nat h - of_nat num / of_nat den\<bar> * 2 powi e"
  proof -
    have "\<bar>of_nat h * 2 powi e - of_nat num / of_nat den * (2 powi e :: rat)\<bar>
        = \<bar>(of_nat h - of_nat num / of_nat den) * (2 powi e :: rat)\<bar>"
      by (simp only: left_diff_distrib)
    also have "\<dots> = \<bar>of_nat h - of_nat num / of_nat den\<bar> * \<bar>2 powi e :: rat\<bar>"
      by (rule abs_mult)
    also have "\<dots> = \<bar>of_nat h - of_nat num / of_nat den\<bar> * (2 powi e :: rat)"
      using p by simp
    finally show ?thesis .
  qed
  ultimately show ?thesis
    unfolding v by simp
qed


lemma powi_neg_cancel:
  assumes "e < 0"
  shows "2 ^ nat (- e) * 2 powi e = (1 :: rat)"
proof -
  have "2 powi e = (inverse 2 ^ nat (- e) :: rat)"
    using assms by (simp add: power_int_def)
  then have "2 ^ nat (- e) * 2 powi e = ((2 * inverse 2) ^ nat (- e) :: rat)"
    by (simp only: power_mult_distrib)
  then show ?thesis
    by simp
qed

lemma powi_nonneg_cancel:
  assumes "0 \<le> e"
  shows "2 powi e / 2 ^ nat e = (1 :: rat)"
  using assms by (simp add: power_int_def)

lemma round_at_error:
  assumes "0 < q" and "round_at p q e = Finite m' e'"
  shows "\<bar>of_nat m' * 2 powi e' - of_nat p / of_nat q\<bar> \<le> (2 powi e / 2 :: rat)"
proof (cases "e < 0")
  case True
  then have r: "round_div (p * 2 ^ nat (- e)) q e = Finite m' e'"
    using assms(2) by (simp add: round_at_def)
  have "of_nat (p * 2 ^ nat (- e)) / of_nat q * 2 powi e
      = of_nat p / of_nat q * (2 ^ nat (- e) * 2 powi e :: rat)"
    by simp
  also have "\<dots> = of_nat p / of_nat q"
    by (simp only: powi_neg_cancel [OF True] mult_1_right)
  finally have "of_nat (p * 2 ^ nat (- e)) / of_nat q * 2 powi e = (of_nat p / of_nat q :: rat)" .
  with round_div_error [OF assms(1) r] show ?thesis
    by (simp only:)
next
  case False
  then have r: "round_div p (q * 2 ^ nat e) e = Finite m' e'"
    using assms(2) by (simp add: round_at_def)
  have "of_nat p / of_nat (q * 2 ^ nat e) * 2 powi e
      = of_nat p / of_nat q * (2 powi e / 2 ^ nat e :: rat)"
    by simp
  also have "\<dots> = of_nat p / of_nat q"
    using False by (simp only: powi_nonneg_cancel mult_1_right not_less)
  finally have e: "of_nat p / of_nat (q * 2 ^ nat e) * 2 powi e = (of_nat p / of_nat q :: rat)" .
  have "0 < q * 2 ^ nat e"
    using assms(1) by simp
  from round_div_error [OF this r] e show ?thesis
    by (simp only:)
qed

text \<open>
  \<open>round_to_double p q\<close> is within half a unit in the last place of \<open>p / q\<close>, the last
  place being \<open>2 powi (L - 52)\<close> for a quotient in \<open>[2 powi L, 2 powi (L + 1))\<close> and
  \<open>2 powi (- 1074)\<close> for the subnormal numbers.
\<close>

lemma round_to_double_error:
  assumes "0 < p" and "0 < q" and "round_to_double p q = Finite m e"
  shows "\<bar>of_nat m * 2 powi e - of_nat p / of_nat q\<bar>
    \<le> (2 powi (max (floor_log2 p q - 52) (- 1074)) / 2 :: rat)"
proof -
  from assms(1,3) have "round_at p q (max (floor_log2 p q - 52) (- 1074)) = Finite m e"
    by (simp add: round_to_double_def)
  with assms(2) show ?thesis
    by (rule round_at_error)
qed

lemma powi_diff_nat: "(2 :: rat) powi (int a - int b) = 2 ^ a / 2 ^ b"
  by (simp add: power_int_diff)

lemma le_powi_iff:
  assumes "0 < q"
  shows "(if 0 \<le> d then q * 2 ^ nat d \<le> p else q \<le> p * 2 ^ nat (- d))
      \<longleftrightarrow> (2 powi d :: rat) \<le> of_nat p / of_nat q"
proof (cases "0 \<le> d")
  case True
  have q0: "(0 :: rat) < of_nat q"
    using assms by simp
  have "q * 2 ^ nat d \<le> p \<longleftrightarrow> (of_nat (q * 2 ^ nat d) :: rat) \<le> of_nat p"
    by (simp only: of_nat_le_iff)
  also have "\<dots> \<longleftrightarrow> (2 ^ nat d :: rat) * of_nat q \<le> of_nat p"
    by (simp add: mult.commute)
  also have "\<dots> \<longleftrightarrow> (2 ^ nat d :: rat) \<le> of_nat p / of_nat q"
    using q0 by (simp only: pos_le_divide_eq)
  also have "(2 ^ nat d :: rat) = 2 powi d"
    using True by (simp add: power_int_def)
  finally show ?thesis
    using True by simp
next
  case False
  define k where "k = nat (- d)"
  have d: "d = int 0 - int k"
    using False by (simp add: k_def)
  have q0: "(0 :: rat) < of_nat q"
    using assms by simp
  have k0: "(0 :: rat) < 2 ^ k"
    by simp
  have "q \<le> p * 2 ^ k \<longleftrightarrow> (of_nat q :: rat) \<le> of_nat (p * 2 ^ k)"
    by (simp only: of_nat_le_iff)
  also have "\<dots> \<longleftrightarrow> (of_nat q :: rat) \<le> of_nat p * 2 ^ k"
    by simp
  also have "\<dots> \<longleftrightarrow> (of_nat q :: rat) / 2 ^ k \<le> of_nat p"
    using k0 by (simp only: pos_divide_le_eq)
  also have "\<dots> \<longleftrightarrow> (1 / 2 ^ k :: rat) * of_nat q \<le> of_nat p"
    by simp
  also have "\<dots> \<longleftrightarrow> (1 / 2 ^ k :: rat) \<le> of_nat p / of_nat q"
    using q0 by (simp only: pos_le_divide_eq)
  also have "(1 / 2 ^ k :: rat) = 2 powi d"
    unfolding d powi_diff_nat by simp
  finally show ?thesis
    using False by (simp add: k_def)
qed

lemma floor_log2_bounds:
  assumes "0 < p" and "0 < q"
  shows "(2 powi floor_log2 p q :: rat) \<le> of_nat p / of_nat q
    \<and> of_nat p / of_nat q < (2 powi (floor_log2 p q + 1) :: rat)"
proof -
  define bp where "bp = floorlog 2 p"
  define bq where "bq = floorlog 2 q"
  define d where "d = int bp - int bq"
  have bp: "2 ^ (bp - 1) \<le> p" "p < 2 ^ bp"
    using floorlog_bounds [of p 2] assms(1) unfolding bp_def by simp_all
  have bq: "2 ^ (bq - 1) \<le> q" "q < 2 ^ bq"
    using floorlog_bounds [of q 2] assms(2) unfolding bq_def by simp_all
  have pos: "0 < bp" "0 < bq"
    using assms unfolding bp_def bq_def by (simp_all add: floorlog_def)
  have P: "(2 ^ (bp - 1) :: rat) \<le> of_nat p" "(of_nat p :: rat) < 2 ^ bp"
  proof -
    have "(of_nat (2 ^ (bp - 1)) :: rat) \<le> of_nat p"
      using bp(1) by (simp only: of_nat_le_iff)
    then show "(2 ^ (bp - 1) :: rat) \<le> of_nat p"
      by simp
    have "(of_nat p :: rat) < of_nat (2 ^ bp)"
      using bp(2) by (simp only: of_nat_less_iff)
    then show "(of_nat p :: rat) < 2 ^ bp"
      by simp
  qed
  have Q: "(2 ^ (bq - 1) :: rat) \<le> of_nat q" "(of_nat q :: rat) < 2 ^ bq"
  proof -
    have "(of_nat (2 ^ (bq - 1)) :: rat) \<le> of_nat q"
      using bq(1) by (simp only: of_nat_le_iff)
    then show "(2 ^ (bq - 1) :: rat) \<le> of_nat q"
      by simp
    have "(of_nat q :: rat) < of_nat (2 ^ bq)"
      using bq(2) by (simp only: of_nat_less_iff)
    then show "(of_nat q :: rat) < 2 ^ bq"
      by simp
  qed
  have q0: "(0 :: rat) < of_nat q" and p0: "(0 :: rat) \<le> of_nat p"
    using assms by simp_all
  have upper: "of_nat p / of_nat q < (2 powi (d + 1) :: rat)"
  proof -
    have "of_nat p / of_nat q < (2 ^ bp / 2 ^ (bq - 1) :: rat)"
      using p0 P(2) _ Q(1) by (rule frac_less) simp
    also have "\<dots> = 2 powi (int bp - int (bq - 1))"
      by (simp only: powi_diff_nat)
    also have "int bp - int (bq - 1) = d + 1"
      using pos(2) unfolding d_def by simp
    finally show ?thesis .
  qed
  have lower: "(2 powi (d - 1) :: rat) < of_nat p / of_nat q"
  proof -
    have "int (bp - 1) - int bq = d - 1"
      using pos(1) unfolding d_def by simp
    then have "(2 powi (d - 1) :: rat) = 2 powi (int (bp - 1) - int bq)"
      by simp
    also have "\<dots> = 2 ^ (bp - 1) / 2 ^ bq"
      by (simp only: powi_diff_nat)
    also have "\<dots> < of_nat p / of_nat q"
      using _ P(1) q0 Q(2) by (rule frac_less2) simp
    finally show ?thesis .
  qed
  have fl: "floor_log2 p q = (if (2 powi d :: rat) \<le> of_nat p / of_nat q then d else d - 1)"
    unfolding floor_log2_def floor_log2_at_def bp_def [symmetric] bq_def [symmetric]
      d_def [symmetric] le_powi_iff [OF assms(2)] ..
  show ?thesis
  proof (cases "(2 powi d :: rat) \<le> of_nat p / of_nat q")
    case True
    with fl have "floor_log2 p q = d"
      by simp
    with True upper show ?thesis
      by simp
  next
    case False
    with fl have f: "floor_log2 p q = d - 1"
      by simp
    from False have "of_nat p / of_nat q < (2 powi d :: rat)"
      by simp
    with lower show ?thesis
      unfolding f by simp
  qed
qed

lemma powi_shift:
  assumes "e0 \<le> e1"
  shows "(2 ^ nat (e1 - e0) :: rat) * 2 powi e0 = 2 powi e1"
proof -
  have "(2 ^ nat (e1 - e0) :: rat) = 2 powi (e1 - e0)"
    using assms by (simp add: power_int_def)
  moreover have "(2 powi (e1 - e0) :: rat) * 2 powi e0 = 2 powi (e1 - e0 + e0)"
    by (rule power_int_add [symmetric]) simp
  ultimately show ?thesis
    by simp
qed

lemma add_at_ratio:
  assumes "0 < p" and "add_at p e0 = Finite m e"
  shows "\<exists>L. (2 powi L :: rat) \<le> of_nat p * 2 powi e0 \<and> of_nat p * 2 powi e0 < (2 powi (L + 1) :: rat)
    \<and> \<bar>of_nat m * 2 powi e - of_nat p * 2 powi e0\<bar> \<le> (2 powi (max (L - 52) (- 1074)) / 2 :: rat)"
proof (cases "e0 < 0")
  case True
  define q :: nat where "q = 2 ^ nat (- e0)"
  have q: "0 < q"
    by (simp add: q_def)
  have r: "round_to_double p q = Finite m e"
    using assms(2) True by (simp add: add_at_def q_def)
  have "(of_nat q :: rat) * 2 powi e0 = 1"
    using powi_neg_cancel [OF True] by (simp add: q_def)
  then have "(of_nat p / of_nat q :: rat) = of_nat p * 2 powi e0"
    using q by (simp add: field_simps)
  with floor_log2_bounds [OF assms(1) q] round_to_double_error [OF assms(1) q r]
  show ?thesis
    by auto
next
  case False
  define p' :: nat where "p' = p * 2 ^ nat e0"
  have p': "0 < p'"
    using assms(1) by (simp add: p'_def)
  have r: "round_to_double p' 1 = Finite m e"
    using assms(2) False by (simp add: add_at_def p'_def)
  have "(2 ^ nat e0 :: rat) = 2 powi e0"
    using False by (simp add: power_int_def)
  then have "(of_nat p' / of_nat 1 :: rat) = of_nat p * 2 powi e0"
    by (simp add: p'_def)
  with floor_log2_bounds [OF p', of 1] round_to_double_error [OF p' _ r]
  show ?thesis
    by auto
qed

text \<open>
  The sum of two doubles is within half a unit in the last place of the exact sum of the
  numbers they stand for.
\<close>

lemma dbl_add_correctly_rounded:
  assumes "0 < m1" and "0 < m2" and "Finite m1 e1 + Finite m2 e2 = Finite m e"
  shows "\<exists>L. (2 powi L :: rat) \<le> of_nat m1 * 2 powi e1 + of_nat m2 * 2 powi e2
    \<and> of_nat m1 * 2 powi e1 + of_nat m2 * 2 powi e2 < (2 powi (L + 1) :: rat)
    \<and> \<bar>of_nat m * 2 powi e - (of_nat m1 * 2 powi e1 + of_nat m2 * 2 powi e2)\<bar>
        \<le> (2 powi (max (L - 52) (- 1074)) / 2 :: rat)"
proof -
  define e0 where "e0 = min e1 e2"
  define p where "p = m1 * 2 ^ nat (e1 - e0) + m2 * 2 ^ nat (e2 - e0)"
  have p: "0 < p"
    using assms(1) by (simp add: p_def)
  have a: "add_at p e0 = Finite m e"
    using assms by (simp add: plus_dbl_def add_aligned_def p_def e0_def)
  have "(of_nat p :: rat) * 2 powi e0
      = of_nat m1 * (2 ^ nat (e1 - e0) * 2 powi e0) + of_nat m2 * (2 ^ nat (e2 - e0) * 2 powi e0)"
    by (simp add: p_def algebra_simps)
  also have "\<dots> = of_nat m1 * 2 powi e1 + of_nat m2 * 2 powi e2"
  proof -
    have "e0 \<le> e1" and "e0 \<le> e2"
      by (simp_all add: e0_def)
    then show ?thesis
      by (simp only: powi_shift)
  qed
  finally have "(of_nat p :: rat) * 2 powi e0 = of_nat m1 * 2 powi e1 + of_nat m2 * 2 powi e2" .
  with add_at_ratio [OF p a] show ?thesis
    by simp
qed

lemma round_div_range:
  assumes "0 < den" and "(of_nat num / of_nat den :: rat) < 2 ^ 53"
    and "round_div num den E = Finite m e"
  shows "m < 2 ^ 53 \<and> E \<le> e \<and> e \<le> 971 \<and> (e = E \<or> m = 2 ^ 52)
    \<and> ((2 ^ 52 :: rat) \<le> of_nat num / of_nat den \<longrightarrow> 2 ^ 52 \<le> m)"
proof -
  define m0 where "m0 = num div den"
  define h where "h = half_even m0 (num mod den) den"
  have d0: "(0 :: rat) < of_nat den"
    using assms(1) by simp
  have "(of_nat num :: rat) < 2 ^ 53 * of_nat den"
    using assms(2) d0 by (simp add: pos_divide_less_eq)
  then have "(of_nat num :: rat) < of_nat (2 ^ 53 * den)"
    by simp
  then have "num < 2 ^ 53 * den"
    by (simp only: of_nat_less_iff)
  then have up: "m0 < 2 ^ 53"
    unfolding m0_def using assms(1) by (simp add: less_mult_imp_div_less)
  have h: "m0 \<le> h" "h \<le> m0 + 1"
    by (simp_all add: h_def half_even_def)
  have low: "2 ^ 52 \<le> m0" if "(2 ^ 52 :: rat) \<le> of_nat num / of_nat den"
  proof -
    have "(2 ^ 52 :: rat) * of_nat den \<le> of_nat num"
      using that d0 by (simp add: pos_le_divide_eq)
    then have "(of_nat (2 ^ 52 * den) :: rat) \<le> of_nat num"
      by simp
    then have "2 ^ 52 * den \<le> num"
      by (simp only: of_nat_le_iff)
    then show ?thesis
      unfolding m0_def using assms(1) by (simp add: less_eq_div_iff_mult_less_eq)
  qed
  have pk: "pack h E = Finite m e"
    using assms(3) by (simp add: round_div_def h_def m0_def)
  show ?thesis
  proof (cases "h = 2 ^ 53")
    case True
    with pk have "m = 2 ^ 52" "e = E + 1" "e \<le> 971"
      by (auto simp: pack_def split: if_splits)
    then show ?thesis
      by simp
  next
    case False
    with pk have "m = h" "e = E" "e \<le> 971"
      by (auto simp: pack_def split: if_splits)
    with False h up low show ?thesis
      by auto
  qed
qed

lemma round_at_scaled:
  assumes "0 < q" and "round_at p q E = Finite m e"
  shows "\<exists>num den. 0 < den \<and> round_div num den E = Finite m e
    \<and> (of_nat num / of_nat den :: rat) = of_nat p / of_nat q * 2 powi (- E)"
proof (cases "E < 0")
  case True
  then have r: "round_div (p * 2 ^ nat (- E)) q E = Finite m e"
    using assms(2) by (simp add: round_at_def)
  have "(2 ^ nat (- E) :: rat) = 2 powi (- E)"
    using True by (simp add: power_int_def)
  then have "(of_nat (p * 2 ^ nat (- E)) / of_nat q :: rat) = of_nat p / of_nat q * 2 powi (- E)"
    by simp
  with assms(1) r show ?thesis
    by blast
next
  case False
  then have r: "round_div p (q * 2 ^ nat E) E = Finite m e"
    using assms(2) by (simp add: round_at_def)
  have "(2 ^ nat E :: rat) = 2 powi E"
    using False by (simp add: power_int_def)
  then have "(of_nat p / of_nat (q * 2 ^ nat E) :: rat) = of_nat p / of_nat q * 2 powi (- E)"
    by (simp add: power_int_minus field_simps)
  moreover have "0 < q * 2 ^ nat E"
    using assms(1) by simp
  ultimately show ?thesis
    using r by blast
qed

text \<open>The result of rounding is a double in the encoding stated with the type.\<close>

lemma round_to_double_canonical:
  assumes "0 < p" and "0 < q" and "round_to_double p q = Finite m e"
  shows "m < 2 ^ 53 \<and> - 1074 \<le> e \<and> e \<le> 971 \<and> (2 ^ 52 \<le> m \<or> e = - 1074)"
proof -
  define L where "L = floor_log2 p q"
  define E where "E = max (L - 52) (- 1074)"
  have r: "round_at p q E = Finite m e"
    using assms(1,3) by (simp add: round_to_double_def E_def L_def)
  from round_at_scaled [OF assms(2) r] obtain num den where
    den: "0 < den" and rd: "round_div num den E = Finite m e"
    and x: "(of_nat num / of_nat den :: rat) = of_nat p / of_nat q * 2 powi (- E)"
    by blast
  have b: "(2 powi L :: rat) \<le> of_nat p / of_nat q" "of_nat p / of_nat q < (2 powi (L + 1) :: rat)"
    using floor_log2_bounds [OF assms(1,2)] by (simp_all add: L_def)
  have pw: "(0 :: rat) < 2 powi (- E)"
    by (simp add: power_int_def)
  have "of_nat p / of_nat q * 2 powi (- E) < (2 powi (L + 1) * 2 powi (- E) :: rat)"
    using b(2) pw by (rule mult_strict_right_mono)
  also have "\<dots> = 2 powi (L + 1 - E)"
    using power_int_add [of "2 :: rat" "L + 1" "- E"] by simp
  also have "\<dots> \<le> 2 powi 53"
    by (rule power_int_increasing) (simp_all add: E_def)
  finally have up: "(of_nat num / of_nat den :: rat) < 2 ^ 53"
    unfolding x by simp
  have low: "(2 ^ 52 :: rat) \<le> of_nat num / of_nat den" if "E = L - 52"
  proof -
    have "(2 ^ 52 :: rat) = 2 powi (L - E)"
      using that by simp
    also have "\<dots> = 2 powi L * 2 powi (- E)"
      using power_int_add [of "2 :: rat" L "- E"] by simp
    also have "\<dots> \<le> of_nat p / of_nat q * 2 powi (- E)"
      using b(1) less_imp_le [OF pw] by (rule mult_right_mono)
    finally show ?thesis
      unfolding x .
  qed
  from round_div_range [OF den up rd]
  have m: "m < 2 ^ 53" and e: "E \<le> e" "e \<le> 971" and c: "e = E \<or> m = 2 ^ 52"
    and l: "(2 ^ 52 :: rat) \<le> of_nat num / of_nat den \<longrightarrow> 2 ^ 52 \<le> m"
    by simp_all
  have "- 1074 \<le> e"
    using e(1) by (simp add: E_def)
  moreover have "2 ^ 52 \<le> m \<or> e = - 1074"
  proof (cases "E = L - 52")
    case True
    with low l show ?thesis
      by simp
  next
    case False
    then have "E = - 1074"
      by (simp add: E_def max_def split: if_splits)
    with c show ?thesis
      by auto
  qed
  ultimately show ?thesis
    using m e(2) by simp
qed

lemma dbl_add_canonical:
  assumes "0 < m1" and "0 < m2" and "Finite m1 e1 + Finite m2 e2 = Finite m e"
  shows "m < 2 ^ 53 \<and> - 1074 \<le> e \<and> e \<le> 971 \<and> (2 ^ 52 \<le> m \<or> e = - 1074)"
proof -
  define e0 where "e0 = min e1 e2"
  define p where "p = m1 * 2 ^ nat (e1 - e0) + m2 * 2 ^ nat (e2 - e0)"
  have p: "0 < p"
    using assms(1) by (simp add: p_def)
  have a: "add_at p e0 = Finite m e"
    using assms by (simp add: plus_dbl_def add_aligned_def p_def e0_def)
  show ?thesis
  proof (cases "e0 < 0")
    case True
    with a have "round_to_double p (2 ^ nat (- e0)) = Finite m e"
      by (simp add: add_at_def)
    with p show ?thesis
      by (intro round_to_double_canonical [of p "2 ^ nat (- e0)"]) simp_all
  next
    case False
    with a have "round_to_double (p * 2 ^ nat e0) 1 = Finite m e"
      by (simp add: add_at_def)
    with p show ?thesis
      by (intro round_to_double_canonical [of "p * 2 ^ nat e0" 1]) simp_all
  qed
qed

subsection \<open>The literals and entries of the nutrient table used below\<close>

text \<open>\<^verbatim>\<open>0.6\<close> is \<^verbatim>\<open>0x1.3333333333333p-1\<close> and \<^verbatim>\<open>4.8\<close> is \<^verbatim>\<open>0x1.3333333333333p+2\<close>.\<close>

lemma literal_0_6: "literal 0 6 = Finite 5404319552844595 (- 53)"
  by (simp add: dbl_eval)

lemma literal_4_8: "literal 4 8 = Finite 5404319552844595 (- 50)"
  by (simp add: dbl_eval)

text \<open>Both are the doubles nearest to the decimal fractions: the error is below half a unit
  in the last place.\<close>

lemma literal_0_6_nearest:
  "dbl_value (literal 0 6) = Some (5404319552844595 / 2 ^ 53)
   \<and> \<bar>(5404319552844595 :: rat) / 2 ^ 53 - 6 / 10\<bar> < 1 / 2 ^ 54"
  by (simp add: literal_0_6)

lemma literal_4_8_nearest:
  "dbl_value (literal 4 8) = Some (5404319552844595 / 2 ^ 50)
   \<and> \<bar>(5404319552844595 :: rat) / 2 ^ 50 - 48 / 10\<bar> < 1 / 2 ^ 51"
  by (simp add: literal_4_8)

text \<open>
  The four additions behind the two totals of carbohydrates compared for C6, each with its
  distance from the exact sum: \<^verbatim>\<open>0.6 + 0.6\<close> is exact, \<^verbatim>\<open>1.2 + 4.8\<close> rounds up to 6,
  \<^verbatim>\<open>0.6 + 4.8\<close> rounds down to 5.3999999999999995, and adding \<^verbatim>\<open>0.6\<close> to that rounds
  down to 5.999999999999999.
\<close>

lemma add_0_6_0_6:
  "Finite 5404319552844595 (- 53) + Finite 5404319552844595 (- 53)
     = Finite 5404319552844595 (- 52)"
  by (simp add: dbl_eval)

lemma add_1_2_4_8:
  "Finite 5404319552844595 (- 52) + Finite 5404319552844595 (- 50)
     = Finite 6755399441055744 (- 50)
   \<and> \<bar>(6755399441055744 :: rat) / 2 ^ 50
        - (5404319552844595 / 2 ^ 52 + 5404319552844595 / 2 ^ 50)\<bar> < 1 / 2 ^ 51"
  by (simp add: dbl_eval)

lemma add_0_6_4_8:
  "Finite 5404319552844595 (- 53) + Finite 5404319552844595 (- 50)
     = Finite 6079859496950169 (- 50)
   \<and> \<bar>(6079859496950169 :: rat) / 2 ^ 50
        - (5404319552844595 / 2 ^ 53 + 5404319552844595 / 2 ^ 50)\<bar> < 1 / 2 ^ 51"
  by (simp add: dbl_eval)

lemma add_0_6_5_4:
  "Finite 5404319552844595 (- 53) + Finite 6079859496950169 (- 50)
     = Finite 6755399441055743 (- 50)
   \<and> \<bar>(6755399441055743 :: rat) / 2 ^ 50
        - (5404319552844595 / 2 ^ 53 + 6079859496950169 / 2 ^ 50)\<bar> < 1 / 2 ^ 51"
  by (simp add: dbl_eval)

lemma NUTRIENT_DATA_egg:
  "NUTRIENT_DATA (ascii ''egg'') = Some (fact (literal 0 6) (literal 12 6) (literal 10 6))"
  by (simp add: NUTRIENT_DATA_def ascii_def)

lemma NUTRIENT_DATA_milk:
  "NUTRIENT_DATA (ascii ''milk'') = Some (fact (literal 4 8) (literal 3 3) (literal 3 8))"
  by (simp add: NUTRIENT_DATA_def ascii_def)

lemma NUTRIENT_DATA_constructor: "NUTRIENT_DATA (ascii ''constructor'') = None"
  by (simp add: NUTRIENT_DATA_def ascii_def)

lemmas table_eval = computeTotals_def zero_totals_def ingredients_or_empty_def addNutrient_def
  get_property_def Object_prototype_def fact_def totals_plus_def
  NUTRIENT_DATA_egg [unfolded ascii_def, simplified]
  NUTRIENT_DATA_milk [unfolded ascii_def, simplified]
  NUTRIENT_DATA_constructor [unfolded ascii_def, simplified]

subsection \<open>What holds for ordinary ingredient names\<close>

text \<open>
  For an ingredient whose spelling is not an inherited property name, and whose entry is
  absent or a count, the body of the loop adds one to the count exactly when the stock is
  zero.
\<close>

lemma addNeed_increment:
  assumes "\<not> inherited i" and "needed i = None \<or> (\<exists>n. needed i = Some (Num n))"
  shows "addNeed m needed i =
    (if stock m i = 0
     then needed(i \<mapsto> Num (case needed i of Some (Num n) \<Rightarrow> n + 1 | _ \<Rightarrow> 1))
     else needed)"
  using assms not_inherited_proto [of i]
  by (auto simp: addNeed_def set_property_def get_property_def Object_prototype_not_inherited)

text \<open>An ingredient whose stock is not zero never has an entry, whatever its name.\<close>

lemma needs_positive_stock:
  "computeShoppingNeeds recipes inventory = Inr needs \<Longrightarrow>
   stock (inventoryMap inventory) k \<noteq> 0 \<Longrightarrow> needs k = None"
  using needs_key [of recipes inventory needs k] by (cases "needs k") simp_all

text \<open>Each occurrence in the list of one recipe counts.\<close>

lemma needs_duplicates_in_one_recipe:
  assumes "computeShoppingNeeds [r] inventory = Inr needs" and "ingredients r = Some xs"
    and "\<not> inherited k" and "stock (inventoryMap inventory) k = 0" and "k \<in> set xs"
  shows "needs k = Some (Num (count_list xs k))"
  using needs_entry [OF assms(1,3)] assms(2,4,5)
  by (simp add: all_ingredients_def ingredients_or_empty_def)

text \<open>Two spellings that differ only in case are two entries, each with its own count.\<close>

lemma needs_case_variants:
  assumes "computeShoppingNeeds recipes inventory = Inr needs"
    and "toLowerCase s = toLowerCase t" and "s \<noteq> t"
    and "s \<in> set (all_ingredients recipes)" and "t \<in> set (all_ingredients recipes)"
    and "stock (inventoryMap inventory) s = 0" and "\<not> inherited s" and "\<not> inherited t"
  shows "needs s = Some (Num (count_list (all_ingredients recipes) s))
    \<and> needs t = Some (Num (count_list (all_ingredients recipes) t))"
proof -
  have "stock (inventoryMap inventory) t = 0"
    using assms(2,6) by (simp add: stock_def)
  then show ?thesis
    using needs_entry [OF assms(1,7)] needs_entry [OF assms(1,8)] assms(4,5,6) by simp
qed

text \<open>
  The stock of an ingredient is the quantity of the last item of the snapshot whose
  lower-cased name is the lower-cased ingredient (0 when there is none), so that two
  spellings with the same lower-cased form have the same stock. The keys of the result are
  spellings as the recipes have them, and the entry under a spelling is the one its own
  occurrences produce.
\<close>

lemma needs_lookup_and_keys:
  assumes "computeShoppingNeeds recipes inventory = Inr needs"
  shows "stock (inventoryMap inventory) ingredient =
      (case find (\<lambda>item. toLowerCase (name item) = toLowerCase ingredient) (rev inventory) of
         None \<Rightarrow> 0 | Some item \<Rightarrow> quantity item)
    \<and> (\<forall>s t. toLowerCase s = toLowerCase t \<longrightarrow>
          stock (inventoryMap inventory) s = stock (inventoryMap inventory) t)
    \<and> dom needs \<subseteq> set (all_ingredients recipes)
    \<and> (\<exists>needs'. computeShoppingNeeds (map (only_spelling k) recipes) inventory = Inr needs'
          \<and> needs' k = needs k)"
proof -
  let ?m = "inventoryMap inventory"
  have "dom needs \<subseteq> set (all_ingredients recipes)"
    using needs_key [OF assms] by auto
  moreover have "\<exists>needs'. computeShoppingNeeds (map (only_spelling k) recipes) inventory = Inr needs'
      \<and> needs' k = needs k"
  proof -
    have "\<forall>r \<in> set recipes. ingredients r \<noteq> None"
      using assms by (simp add: computeShoppingNeeds_eq split: if_splits)
    then have "computeShoppingNeeds (map (only_spelling k) recipes) inventory =
        Inr (foldl (addNeed ?m) Map.empty (filter (\<lambda>i. i = k) (all_ingredients recipes)))"
      by (simp add: computeShoppingNeeds_eq all_ingredients_only_spelling only_spelling_def)
    moreover have "foldl (addNeed ?m) Map.empty (filter (\<lambda>i. i = k) (all_ingredients recipes)) k
        = needs k"
      using foldl_addNeed_filter [of Map.empty k Map.empty ?m "all_ingredients recipes"]
        needs_foldl [OF assms] by simp
    ultimately show ?thesis by simp
  qed
  ultimately show ?thesis
    by (simp add: stock_find)
qed

text \<open>
  A recipe without the property \<^verbatim>\<open>ingredients\<close> makes the shopping list fail, wherever it
  stands in the snapshot; the nutrition totals read it as a recipe without ingredients.
\<close>

lemma computeShoppingNeeds_missing:
  "\<exists>r \<in> set recipes. ingredients r = None \<Longrightarrow>
   computeShoppingNeeds recipes inventory = Inl TypeError"
  by (auto simp: computeShoppingNeeds_eq)

lemma computeTotals_missing_is_empty:
  "computeTotals (map (\<lambda>r. r\<lparr>ingredients := Some (ingredients_or_empty r)\<rparr>) recipes) table =
   computeTotals recipes table"
proof -
  have "ingredients_or_empty (r\<lparr>ingredients := Some (ingredients_or_empty r)\<rparr>) =
      ingredients_or_empty r" for r
    by (simp add: ingredients_or_empty_def)
  then show ?thesis
    by (simp add: computeTotals_flat all_ingredients_def comp_def)
qed

subsection \<open>The scenarios of the specification\<close>

text \<open>
  The four scenarios that the specification lists with its testable properties, on the
  table of the source: zero stock and no stock are needs, a positive stock found under
  another case is none, each occurrence adds its entry, an unknown ingredient adds
  nothing.
\<close>

lemma scenario_zero_stock_and_absent:
  "computeShoppingNeeds
     [\<lparr>title = ascii ''Pancakes'', content = [], ingredients = Some [ascii ''Egg'', ascii ''Milk'']\<rparr>]
     [\<lparr>name = ascii ''egg'', quantity = 0\<rparr>]
   = Inr [ascii ''Egg'' \<mapsto> Num 1, ascii ''Milk'' \<mapsto> Num 1]"
  by (simp add: needs_eval string_eval)

lemma scenario_positive_stock:
  "computeShoppingNeeds
     [\<lparr>title = ascii ''Boiled egg'', content = [], ingredients = Some [ascii ''egg'']\<rparr>]
     [\<lparr>name = ascii ''EGG'', quantity = 5\<rparr>]
   = Inr Map.empty"
  by (simp add: needs_eval string_eval)

lemma scenario_each_occurrence_counted:
  "computeTotals
     [\<lparr>title = ascii ''Omelette'', content = [], ingredients = Some [ascii ''egg'', ascii ''egg'']\<rparr>]
     NUTRIENT_DATA
   = \<lparr>totalCarbs = Val (literal 1 2), totalProtein = Val (literal 25 2),
        totalFat = Val (literal 21 2)\<rparr>"
  by (simp add: table_eval string_eval dbl_eval)

lemma scenario_unknown_ingredient:
  "computeTotals
     [\<lparr>title = ascii ''Mystery'', content = [], ingredients = Some [ascii ''unknown-item'']\<rparr>]
     NUTRIENT_DATA
   = \<lparr>totalCarbs = Val 0, totalProtein = Val 0, totalFat = Val 0\<rparr>"
  by (simp add: computeTotals_def zero_totals_def ingredients_or_empty_def addNutrient_def
      get_property_def Object_prototype_def NUTRIENT_DATA_def string_eval)

text \<open>
  The lookup of the stock beyond ASCII: the ingredient \<^verbatim>\<open>U+00E9 clair\<close> finds the item
  \<^verbatim>\<open>U+00C9 clair\<close>, whose quantity is 2. Of two items that differ in case the later one
  decides, and two spellings that differ in case are two entries.
\<close>

lemma scenario_accented_name:
  "computeShoppingNeeds
     [\<lparr>title = ascii ''Dessert'', content = [], ingredients = Some [0x00E9 # ascii ''clair'']\<rparr>]
     [\<lparr>name = 0x00C9 # ascii ''clair'', quantity = 2\<rparr>]
   = Inr Map.empty"
  by (simp add: needs_eval string_eval)

lemma scenario_later_item_decides:
  "computeShoppingNeeds
     [\<lparr>title = ascii ''Omelette'', content = [], ingredients = Some [ascii ''egg'']\<rparr>]
     [\<lparr>name = ascii ''EGG'', quantity = 0\<rparr>, \<lparr>name = ascii ''Egg'', quantity = 5\<rparr>]
   = Inr Map.empty
   \<and> computeShoppingNeeds
     [\<lparr>title = ascii ''Omelette'', content = [], ingredients = Some [ascii ''egg'']\<rparr>]
     [\<lparr>name = ascii ''Egg'', quantity = 5\<rparr>, \<lparr>name = ascii ''EGG'', quantity = 0\<rparr>]
   = Inr [ascii ''egg'' \<mapsto> Num 1]"
  by (simp add: needs_eval string_eval)

lemma scenario_case_variants:
  "computeShoppingNeeds
     [\<lparr>title = ascii ''Pudding'', content = [], ingredients = Some [ascii ''Egg'']\<rparr>,
      \<lparr>title = ascii ''Omelette'', content = [], ingredients = Some [ascii ''egg'']\<rparr>]
     [\<lparr>name = ascii ''EGG'', quantity = 5\<rparr>, \<lparr>name = ascii ''Egg'', quantity = 0\<rparr>]
   = Inr [ascii ''Egg'' \<mapsto> Num 1, ascii ''egg'' \<mapsto> Num 1]"
  by (simp add: needs_eval string_eval)

section \<open>The claims\<close>

subsection \<open>C1: keys and values of the shopping needs\<close>

text \<open>
  C1 says that every key of the result is an ingredient string of some recipe and that its
  value is the number of recipes that contain that spelling, among those whose stock is
  zero. The keys are as claimed, and a key has zero stock. The value is not the number of
  recipes: it is the number of occurrences of the spelling in all ingredient lists, so
  that a spelling listed twice in one recipe counts twice. This holds for every key that
  is not one of the property names inherited from \<^verbatim>\<open>Object.prototype\<close>, whenever the loop
  returns (no recipe lacks its ingredient list).
\<close>

theorem C1_keys_and_occurrence_counts:
  assumes "computeShoppingNeeds recipes inventory = Inr needs" and "needs k = Some v"
  shows "(\<exists>r \<in> set recipes. \<exists>xs. ingredients r = Some xs \<and> k \<in> set xs)
    \<and> stock (inventoryMap inventory) k = 0
    \<and> (\<not> inherited k \<longrightarrow> v = Num (count_list (all_ingredients recipes) k))"
proof -
  from needs_key [OF assms]
  have k: "k \<in> set (all_ingredients recipes)" and s: "stock (inventoryMap inventory) k = 0"
    by simp_all
  from k obtain r where r: "r \<in> set recipes" "k \<in> set (ingredients_or_empty r)"
    by (auto simp: all_ingredients_def)
  then obtain xs where "ingredients r = Some xs" "k \<in> set xs"
    by (cases "ingredients r") (simp_all add: ingredients_or_empty_def)
  with r(1) have "\<exists>r \<in> set recipes. \<exists>xs. ingredients r = Some xs \<and> k \<in> set xs"
    by blast
  moreover have "v = Num (count_list (all_ingredients recipes) k)" if "\<not> inherited k"
    using needs_entry [OF assms(1) that] assms(2) k s by simp
  ultimately show ?thesis using s by simp
qed

text \<open>
  C1 at two recipes and an inventory in which \<^verbatim>\<open>egg\<close> is at zero and \<^verbatim>\<open>rice\<close> is in
  stock: \<^verbatim>\<open>Egg\<close> occurs twice and has the value 2.
\<close>

theorem C1_witness:
  "computeShoppingNeeds
     [\<lparr>title = ascii ''Pudding'', content = [], ingredients = Some [ascii ''Egg'', ascii ''Egg'']\<rparr>,
      \<lparr>title = ascii ''Rice milk'', content = [], ingredients = Some [ascii ''Milk'', ascii ''rice'']\<rparr>]
     [\<lparr>name = ascii ''egg'', quantity = 0\<rparr>, \<lparr>name = ascii ''rice'', quantity = 3\<rparr>]
     = Inr [ascii ''Egg'' \<mapsto> Num 2, ascii ''Milk'' \<mapsto> Num 1]
   \<and> [ascii ''Egg'' \<mapsto> Num 2, ascii ''Milk'' \<mapsto> Num 1] (ascii ''Egg'') = Some (Num 2)
   \<and> \<not> inherited (ascii ''Egg'')
   \<and> (\<exists>r \<in> set [\<lparr>title = ascii ''Pudding'', content = [], ingredients = Some [ascii ''Egg'', ascii ''Egg'']\<rparr>,
      \<lparr>title = ascii ''Rice milk'', content = [], ingredients = Some [ascii ''Milk'', ascii ''rice'']\<rparr>].
        \<exists>xs. ingredients r = Some xs \<and> (ascii ''Egg'') \<in> set xs)
   \<and> stock (inventoryMap [\<lparr>name = ascii ''egg'', quantity = 0\<rparr>, \<lparr>name = ascii ''rice'', quantity = 3\<rparr>]) (ascii ''Egg'') = 0
   \<and> Num 2 = Num (count_list (all_ingredients
        [\<lparr>title = ascii ''Pudding'', content = [], ingredients = Some [ascii ''Egg'', ascii ''Egg'']\<rparr>,
         \<lparr>title = ascii ''Rice milk'', content = [], ingredients = Some [ascii ''Milk'', ascii ''rice'']\<rparr>]) (ascii ''Egg''))"
proof -
  let ?R = "[\<lparr>title = ascii ''Pudding'', content = [], ingredients = Some [ascii ''Egg'', ascii ''Egg'']\<rparr>,
      \<lparr>title = ascii ''Rice milk'', content = [], ingredients = Some [ascii ''Milk'', ascii ''rice'']\<rparr>]"
  let ?I = "[\<lparr>name = ascii ''egg'', quantity = 0\<rparr>, \<lparr>name = ascii ''rice'', quantity = 3\<rparr>]"
  have r: "computeShoppingNeeds ?R ?I = Inr [ascii ''Egg'' \<mapsto> Num 2, ascii ''Milk'' \<mapsto> Num 1]"
    by (simp add: needs_eval string_eval numeral_2_eq_2 [symmetric])
  have e: "[ascii ''Egg'' \<mapsto> Num 2, ascii ''Milk'' \<mapsto> Num 1] (ascii ''Egg'') = Some (Num 2)"
    by (simp add: ascii_def)
  have i: "\<not> inherited (ascii ''Egg'')"
    by (simp add: inherited_def Object_prototype_def ascii_def)
  from C1_keys_and_occurrence_counts [OF r e] r e i show ?thesis
    by simp
qed

text \<open>
  C1 as it is worded fails on one recipe that lists \<^verbatim>\<open>egg\<close> twice: the value is 2, the
  number of recipes that contain \<^verbatim>\<open>egg\<close> is 1.
\<close>

theorem C1_counterexample:
  "computeShoppingNeeds
     [\<lparr>title = ascii ''Tamagoyaki'', content = [], ingredients = Some [ascii ''egg'', ascii ''egg'']\<rparr>] []
     = Inr [ascii ''egg'' \<mapsto> Num 2]
   \<and> Num 2 \<noteq> Num (recipes_containing
     [\<lparr>title = ascii ''Tamagoyaki'', content = [], ingredients = Some [ascii ''egg'', ascii ''egg'']\<rparr>] (ascii ''egg''))"
  by (simp add: needs_eval string_eval recipes_containing_def ingredients_or_empty_def
      numeral_2_eq_2 [symmetric])

subsection \<open>C2: one more need for every occurrence with zero stock\<close>

text \<open>
  C2 says that the counter under the spelling of an ingredient is incremented by 1 exactly
  when its stock is zero. For ordinary names this is \<open>addNeed_increment\<close> and
  \<open>needs_positive_stock\<close>. For a name that \<^verbatim>\<open>neededItems\<close> inherits it is not: with no
  stock at all, \<^verbatim>\<open>constructor\<close> gets the text of the function \<^verbatim>\<open>Object\<close> followed by
  \<^verbatim>\<open>1\<close> instead of the count 1, and \<^verbatim>\<open>__proto__\<close> gets no entry.
\<close>

theorem C2_inherited_name_is_not_counted:
  "computeShoppingNeeds
     [\<lparr>title = ascii ''Salad'', content = [], ingredients = Some [ascii ''constructor'']\<rparr>] []
   = Inr [ascii ''constructor'' \<mapsto> Str (ascii ''function Object() { [native code] }1'')]
   \<and> computeShoppingNeeds
     [\<lparr>title = ascii ''Salad'', content = [], ingredients = Some [ascii ''__proto__'']\<rparr>] []
   = Inr Map.empty"
  by (simp add: needs_eval string_eval)

subsection \<open>C3: the totals are the sum over all occurrences\<close>

text \<open>
  C3 says that the totals are the sum, over all occurrences of all ingredients, of the
  entries found under the lower-cased names, an ingredient without an entry adding
  nothing. This is \<open>computeTotals_sum\<close> when no ingredient without an entry has an
  inherited name. An ingredient \<^verbatim>\<open>constructor\<close> has no entry in \<^verbatim>\<open>NUTRIENT_DATA\<close>, yet
  the lookup yields the inherited function, whose fields are \<^verbatim>\<open>undefined\<close>: the three
  totals become \<^verbatim>\<open>NaN\<close>, where the sum of the entries is that of \<^verbatim>\<open>egg\<close> alone.
\<close>

theorem C3_inherited_name_gives_NaN:
  "computeTotals
     [\<lparr>title = ascii ''Salad'', content = [], ingredients = Some [ascii ''egg'', ascii ''constructor'']\<rparr>]
     NUTRIENT_DATA
   = \<lparr>totalCarbs = NaN, totalProtein = NaN, totalFat = NaN\<rparr>
   \<and> sum_facts (matched_facts NUTRIENT_DATA
     [\<lparr>title = ascii ''Salad'', content = [], ingredients = Some [ascii ''egg'', ascii ''constructor'']\<rparr>])
   = \<lparr>totalCarbs = Val (literal 0 6), totalProtein = Val (literal 12 6),
        totalFat = Val (literal 10 6)\<rparr>"
  by (simp add: table_eval string_eval dbl_eval sum_facts_def matched_facts_def
      all_ingredients_def add_fact_def)

subsection \<open>C4: recipes without an ingredient list\<close>

text \<open>
  C4 says that both computations read a recipe without the property \<^verbatim>\<open>ingredients\<close> as a
  recipe without ingredients and never throw. \<^verbatim>\<open>updateNutritionGraph\<close> does
  (\<open>computeTotals_missing_is_empty\<close>); \<^verbatim>\<open>displayShoppingList\<close> lacks the guard and throws
  a \<^verbatim>\<open>TypeError\<close>, whatever the inventory.
\<close>

theorem C4_missing_ingredients_throw:
  "computeShoppingNeeds [\<lparr>title = ascii ''Toast'', content = [], ingredients = None\<rparr>] inventory
   = Inl TypeError"
  by (simp add: computeShoppingNeeds_def)

subsection \<open>C5: lookup by lower-cased name, keys as authored\<close>

text \<open>
  C5 says that the inventory is matched regardless of case, that the keys of the result
  keep the spelling of the recipes, so that two spellings of an ingredient that differ in
  case, in different recipes, are two entries with the same lookup, and that of two items
  whose names agree up to case the later one decides. The lookup is as claimed
  (\<open>needs_lookup_and_keys\<close>), and two such spellings are two entries, each with its own
  count, when neither is a property name that \<^verbatim>\<open>neededItems\<close> inherits
  (\<open>needs_case_variants\<close>). For \<^verbatim>\<open>__proto__\<close> and \<^verbatim>\<open>__PROTO__\<close> they are not: the two
  spellings have the same lower-cased form and no stock, and by the defect shown for C2
  the first gets no entry, so that the result has one entry where C5 says two.
\<close>

theorem C5_case_variants_of_inherited_name:
  "computeShoppingNeeds
     [\<lparr>title = ascii ''Salad'', content = [], ingredients = Some [ascii ''__proto__'']\<rparr>,
      \<lparr>title = ascii ''Soup'', content = [], ingredients = Some [ascii ''__PROTO__'']\<rparr>] []
   = Inr [ascii ''__PROTO__'' \<mapsto> Num 1]
   \<and> toLowerCase (ascii ''__proto__'') = toLowerCase (ascii ''__PROTO__'')"
  by (simp add: needs_eval string_eval)

subsection \<open>C6: totals of a concatenation\<close>

text \<open>
  C6 says that the totals of \<open>A @ B\<close> are the component-wise sum of the totals of \<open>A\<close> and
  of \<open>B\<close>. Whatever the arithmetic, the totals of \<open>A @ B\<close> are those of \<open>A\<close> to which the
  entries of the ingredients of \<open>B\<close> are added one after the other. They are the sum of
  the two totals for quantities whose addition is associative with unit 0, that is, in
  exact arithmetic.
\<close>

theorem C6_additive_in_exact_arithmetic:
  "computeTotals (A @ B) table =
     foldl (addNutrient table) (computeTotals A table) (all_ingredients B)
   \<and> computeTotals (A @ B) exact =
     totals_plus (computeTotals A exact) (computeTotals B exact)"
  for table :: "'q::{plus,zero} nutrient object" and exact :: "'r::monoid_add nutrient object"
proof -
  have "computeTotals (A @ B) table =
      foldl (addNutrient table) (computeTotals A table) (all_ingredients B)"
    by (simp add: computeTotals_flat all_ingredients_append)
  moreover have "computeTotals (A @ B) exact =
      totals_plus (computeTotals A exact) (computeTotals B exact)"
    using foldl_addNutrient_shift [of exact "computeTotals A exact" "all_ingredients B"]
    by (simp add: computeTotals_flat all_ingredients_append)
  ultimately show ?thesis
    by simp
qed

text \<open>
  C6 fails for the doubles of the program, whose addition rounds: with the table of the
  source, a recipe with \<^verbatim>\<open>egg\<close> followed by a recipe with \<^verbatim>\<open>egg\<close> and \<^verbatim>\<open>milk\<close> has
  6 of carbohydrates (\<^verbatim>\<open>(0.6 + 0.6) + 4.8\<close>), and the sum of the two totals is
  \<^verbatim>\<open>0.6 + (0.6 + 4.8)\<close>, which is 5.999999999999999.
\<close>

theorem C6_counterexample:
  "totalCarbs (computeTotals
     ([\<lparr>title = ascii ''Boiled egg'', content = [], ingredients = Some [ascii ''egg'']\<rparr>] @
      [\<lparr>title = ascii ''Omelette'', content = [], ingredients = Some [ascii ''egg'', ascii ''milk'']\<rparr>])
     NUTRIENT_DATA) = Val (Finite 6755399441055744 (- 50))
   \<and> totalCarbs (totals_plus
     (computeTotals [\<lparr>title = ascii ''Boiled egg'', content = [], ingredients = Some [ascii ''egg'']\<rparr>]
        NUTRIENT_DATA)
     (computeTotals [\<lparr>title = ascii ''Omelette'', content = [], ingredients = Some [ascii ''egg'', ascii ''milk'']\<rparr>]
        NUTRIENT_DATA)) = Val (Finite 6755399441055743 (- 50))
   \<and> computeTotals
     ([\<lparr>title = ascii ''Boiled egg'', content = [], ingredients = Some [ascii ''egg'']\<rparr>] @
      [\<lparr>title = ascii ''Omelette'', content = [], ingredients = Some [ascii ''egg'', ascii ''milk'']\<rparr>])
     NUTRIENT_DATA
   \<noteq> totals_plus
     (computeTotals [\<lparr>title = ascii ''Boiled egg'', content = [], ingredients = Some [ascii ''egg'']\<rparr>]
        NUTRIENT_DATA)
     (computeTotals [\<lparr>title = ascii ''Omelette'', content = [], ingredients = Some [ascii ''egg'', ascii ''milk'']\<rparr>]
        NUTRIENT_DATA)"
proof -
  let ?L = "computeTotals
     ([\<lparr>title = ascii ''Boiled egg'', content = [], ingredients = Some [ascii ''egg'']\<rparr>] @
      [\<lparr>title = ascii ''Omelette'', content = [], ingredients = Some [ascii ''egg'', ascii ''milk'']\<rparr>])
     NUTRIENT_DATA"
  let ?R = "totals_plus
     (computeTotals [\<lparr>title = ascii ''Boiled egg'', content = [], ingredients = Some [ascii ''egg'']\<rparr>]
        NUTRIENT_DATA)
     (computeTotals [\<lparr>title = ascii ''Omelette'', content = [], ingredients = Some [ascii ''egg'', ascii ''milk'']\<rparr>]
        NUTRIENT_DATA)"
  have l: "totalCarbs ?L = Val (Finite 6755399441055744 (- 50))"
    by (simp add: table_eval string_eval dbl_eval)
  have r: "totalCarbs ?R = Val (Finite 6755399441055743 (- 50))"
    by (simp add: table_eval string_eval dbl_eval)
  from l r have "?L \<noteq> ?R"
    by auto
  with l r show ?thesis
    by simp
qed

subsection \<open>C7: no recipes\<close>

text \<open>
  C7: without recipes the totals are the three zeros, for every table, and the shopping
  needs are the empty mapping, for every inventory.
\<close>

theorem C7_empty_recipes:
  "computeTotals [] table = \<lparr>totalCarbs = Val 0, totalProtein = Val 0, totalFat = Val 0\<rparr>
   \<and> computeShoppingNeeds [] inventory = Inr Map.empty"
  by (simp add: computeTotals_def zero_totals_def computeShoppingNeeds_def)

subsection \<open>C9: duplicates within one recipe\<close>

text \<open>
  C9 says that a spelling listed several times in one recipe, with zero stock, has that
  number as its count. For ordinary names this is \<open>needs_duplicates_in_one_recipe\<close>. For
  an inherited name it is not, by the defect shown for C2: \<^verbatim>\<open>toString\<close> listed twice gets
  the text of the function followed by \<^verbatim>\<open>11\<close>, not the count 2.
\<close>

theorem C9_inherited_name_duplicates:
  "computeShoppingNeeds
     [\<lparr>title = ascii ''Soup'', content = [], ingredients = Some [ascii ''toString'', ascii ''toString'']\<rparr>] []
   = Inr [ascii ''toString'' \<mapsto> Str (ascii ''function toString() { [native code] }11'')]"
  by (simp add: needs_eval string_eval)

subsection \<open>C10: table keys are not lower-cased\<close>

text \<open>
  C10 says that an entry of the table whose key contains an upper-case character is never
  matched. The lookup lower-cases the ingredient and not the key, so what holds is this:
  no lower-cased ingredient equals a key that contains a character that \<^verbatim>\<open>toLowerCase\<close>
  replaces (a character with a lower-case mapping: A to Z by \<open>ascii_capital_has_lower_case\<close>,
  the accented capitals, the capital sigma, ...). An entry under such a key changes no
  totals: the table with the entry and the table without it give the same result for
  every list of recipes.
\<close>

theorem C10_key_with_lower_case_mapping_never_matched:
  assumes "\<exists>c \<in> set k. has_lower_case c"
  shows "(\<forall>ingredient. toLowerCase ingredient \<noteq> k)
    \<and> computeTotals recipes (table(k \<mapsto> nutrient)) = computeTotals recipes (table(k := None))"
proof -
  have n: "toLowerCase i \<noteq> k" for i
    using assms by (rule toLowerCase_neq_key)
  then have "addNutrient (table(k \<mapsto> nutrient)) t i = addNutrient (table(k := None)) t i" for t i
    by (simp add: addNutrient_def get_property_def)
  then have "addNutrient (table(k \<mapsto> nutrient)) = addNutrient (table(k := None))"
    by (intro ext)
  with n show ?thesis
    by (simp add: computeTotals_def)
qed

text \<open>
  C10 at the keys \<^verbatim>\<open>Egg\<close> and \<^verbatim>\<open>U+00C9\<close> added to the table of the source: the ingredient
  \<^verbatim>\<open>Egg\<close> finds the entry \<^verbatim>\<open>egg\<close> of the source, with the added entry or without it.
\<close>

theorem C10_witness:
  "(\<exists>c \<in> set (ascii ''Egg''). has_lower_case c)
   \<and> computeTotals [\<lparr>title = ascii ''Fried egg'', content = [], ingredients = Some [ascii ''Egg'']\<rparr>]
       (NUTRIENT_DATA(ascii ''Egg'' \<mapsto> fact (literal 1 0) (literal 1 0) (literal 1 0)))
     = computeTotals [\<lparr>title = ascii ''Fried egg'', content = [], ingredients = Some [ascii ''Egg'']\<rparr>]
       (NUTRIENT_DATA(ascii ''Egg'' := None))
   \<and> computeTotals [\<lparr>title = ascii ''Fried egg'', content = [], ingredients = Some [ascii ''Egg'']\<rparr>]
       (NUTRIENT_DATA(ascii ''Egg'' := None))
     = \<lparr>totalCarbs = Val (literal 0 6), totalProtein = Val (literal 12 6),
          totalFat = Val (literal 10 6)\<rparr>
   \<and> (\<exists>c \<in> set [0x00C9]. has_lower_case c)
   \<and> toLowerCase [0x00C9] \<noteq> [0x00C9]
   \<and> computeTotals [\<lparr>title = ascii ''Fried egg'', content = [], ingredients = Some [[0x00C9]]\<rparr>]
       (NUTRIENT_DATA([0x00C9] \<mapsto> fact (literal 1 0) (literal 1 0) (literal 1 0)))
     = computeTotals [\<lparr>title = ascii ''Fried egg'', content = [], ingredients = Some [[0x00C9]]\<rparr>]
       (NUTRIENT_DATA([0x00C9] := None))"
proof -
  have u: "\<exists>c \<in> set (ascii ''Egg''). has_lower_case c"
    by (simp add: string_eval)
  have v: "\<exists>c \<in> set [0x00C9]. has_lower_case c"
    by (simp add: string_eval)
  have e: "computeTotals
      [\<lparr>title = ascii ''Fried egg'', content = [], ingredients = Some [ascii ''Egg'']\<rparr>]
      (NUTRIENT_DATA(ascii ''Egg'' := None))
    = \<lparr>totalCarbs = Val (literal 0 6), totalProtein = Val (literal 12 6),
         totalFat = Val (literal 10 6)\<rparr>"
    by (simp add: table_eval string_eval dbl_eval)
  from C10_key_with_lower_case_mapping_never_matched [OF u]
    C10_key_with_lower_case_mapping_never_matched [OF v] u v e
  show ?thesis
    by blast
qed

text \<open>
  C10 as it is worded fails at the key \<^verbatim>\<open>U+03D2\<close>: it is an upper-case letter without a
  lower-case mapping, \<^verbatim>\<open>toLowerCase\<close> leaves it as it is, and the ingredient \<^verbatim>\<open>U+03D2\<close>
  finds the entry, which adds its quantities to the totals.
\<close>

theorem C10_counterexample:
  "isUpperCase 0x03D2
   \<and> toLowerCase [0x03D2] = [0x03D2]
   \<and> computeTotals [\<lparr>title = ascii ''Soup'', content = [], ingredients = Some [[0x03D2]]\<rparr>]
       (NUTRIENT_DATA([0x03D2] \<mapsto> fact (literal 1 0) (literal 1 0) (literal 1 0)))
     = \<lparr>totalCarbs = Val (literal 1 0), totalProtein = Val (literal 1 0),
          totalFat = Val (literal 1 0)\<rparr>
   \<and> computeTotals [\<lparr>title = ascii ''Soup'', content = [], ingredients = Some [[0x03D2]]\<rparr>]
       (NUTRIENT_DATA([0x03D2] := None))
     = \<lparr>totalCarbs = Val 0, totalProtein = Val 0, totalFat = Val 0\<rparr>
   \<and> Val (literal 1 0) \<noteq> (Val 0 :: dbl number)"
  by (simp add: table_eval string_eval dbl_eval)

end
